theory Spec2Isabelle
  imports Complex_Main "HOL-Library.Log_Nat"
begin

section \<open>Quiz structural validator (QuizValidationService)\<close>

subsection \<open>Data\<close>

text \<open>
  Modelled from the spec: the enum \<open>QuestionType\<close> and the classes \<open>CreateQuizDto\<close>,
  \<open>CreateQuestionDto\<close> and \<open>CreateAnswerDto\<close>, which the service imports and whose
  declarations are not among the sources. The data model gives a question a type among
  UNIQUE, MULTIPLE, TEXT and BOOL and a collection of answers, and an answer a text and a
  flag \<open>correct\<close>; the fields are named as the service reads them. A request body can
  carry any string as a question type, so the enum has a fifth case for every value the
  \<open>switch\<close> sends to its \<open>default\<close> branch. The arrays \<open>questions\<close> and \<open>answers\<close> are
  tested with \<open>!x\<close> before their length is read, so both are optional here.
\<close>

datatype QuestionType = UNIQUE | MULTIPLE | TEXT | BOOL | OtherType string

record CreateAnswerDto =
  answer_text :: string
  correct :: bool

record CreateQuestionDto =
  question_type :: QuestionType
  answers :: "CreateAnswerDto list option"

record CreateQuizDto =
  questions :: "CreateQuestionDto list option"

text \<open>
  Every \<open>throw\<close> of the two services is one value of \<open>error\<close>. The constructors carry the
  names of the error taxonomy; the number is the 1-based position printed in the prefix
  \<open>Question n\<close>, and \<open>rule\<close> tells the throw sites of one validator apart.
\<close>

datatype rule = AnswerCount | CorrectCount | BoolOptions

datatype error =
    EmptyQuiz
  | EmptyAnswers nat
  | InvalidUniqueQuestion nat rule
  | InvalidMultipleQuestion nat rule
  | InvalidTextQuestion nat rule
  | InvalidBoolQuestion nat rule
  | UnknownQuestionType nat
  | EnrollmentNotFound
  | LessonNotFound
  | QuizRequirementUnmet string

subsection \<open>Strings\<close>

text \<open>
  \<open>toLowerCase\<close> on the letters A to Z; every other byte is kept. No character outside
  ASCII lower-cases to a letter of \<open>true\<close>, \<open>false\<close>, \<open>yes\<close> or \<open>no\<close>, so the membership
  tests below see what the JavaScript tests see.
\<close>

definition lowerChar :: "char \<Rightarrow> char" where
  "lowerChar c =
     (case map_of (zip ''ABCDEFGHIJKLMNOPQRSTUVWXYZ'' ''abcdefghijklmnopqrstuvwxyz'') c of
        Some l \<Rightarrow> l
      | None \<Rightarrow> c)"

definition toLowerCase :: "string \<Rightarrow> string" where
  "toLowerCase s = map lowerChar s"

subsection \<open>The validators\<close>

text \<open>
  The private validators are only called after \<open>validateQuestion\<close> has found
  \<open>question.answers\<close> defined and non-empty; they take that array and the position \<open>n\<close> of
  the prefix.
\<close>

definition correctAnswers :: "CreateAnswerDto list \<Rightarrow> CreateAnswerDto list" where
  "correctAnswers as = filter correct as"

definition validateUniqueQuestion :: "CreateAnswerDto list \<Rightarrow> nat \<Rightarrow> error + unit" where
  "validateUniqueQuestion as n =
     (if length as < 2 then Inl (InvalidUniqueQuestion n AnswerCount)
      else if length (correctAnswers as) \<noteq> 1 then Inl (InvalidUniqueQuestion n CorrectCount)
      else Inr ())"

definition validateMultipleQuestion :: "CreateAnswerDto list \<Rightarrow> nat \<Rightarrow> error + unit" where
  "validateMultipleQuestion as n =
     (if length as < 2 then Inl (InvalidMultipleQuestion n AnswerCount)
      else if length (correctAnswers as) = 0 then Inl (InvalidMultipleQuestion n CorrectCount)
      else Inr ())"

definition validateTextQuestion :: "CreateAnswerDto list \<Rightarrow> nat \<Rightarrow> error + unit" where
  "validateTextQuestion as n =
     (if length as \<noteq> 1 then Inl (InvalidTextQuestion n AnswerCount)
      else if \<not> correct (as ! 0) then Inl (InvalidTextQuestion n CorrectCount)
      else Inr ())"

definition hasValidBoolOptions :: "string list \<Rightarrow> bool" where
  "hasValidBoolOptions answerTexts =
     ((''true'' \<in> set answerTexts \<and> ''false'' \<in> set answerTexts) \<or>
      (''yes'' \<in> set answerTexts \<and> ''no'' \<in> set answerTexts))"

definition validateBoolQuestion :: "CreateAnswerDto list \<Rightarrow> nat \<Rightarrow> error + unit" where
  "validateBoolQuestion as n =
     (if length as \<noteq> 2 then Inl (InvalidBoolQuestion n AnswerCount)
      else if length (correctAnswers as) \<noteq> 1 then Inl (InvalidBoolQuestion n CorrectCount)
      else if \<not> hasValidBoolOptions (map (\<lambda>a. toLowerCase (answer_text a)) as)
        then Inl (InvalidBoolQuestion n BoolOptions)
      else Inr ())"

definition validateQuestion :: "CreateQuestionDto \<Rightarrow> nat \<Rightarrow> error + unit" where
  "validateQuestion question questionIndex =
     (case answers question of
        None \<Rightarrow> Inl (EmptyAnswers (questionIndex + 1))
      | Some as \<Rightarrow>
          if length as = 0 then Inl (EmptyAnswers (questionIndex + 1))
          else (case question_type question of
                  UNIQUE \<Rightarrow> validateUniqueQuestion as (questionIndex + 1)
                | MULTIPLE \<Rightarrow> validateMultipleQuestion as (questionIndex + 1)
                | TEXT \<Rightarrow> validateTextQuestion as (questionIndex + 1)
                | BOOL \<Rightarrow> validateBoolQuestion as (questionIndex + 1)
                | OtherType _ \<Rightarrow> Inl (UnknownQuestionType (questionIndex + 1))))"

text \<open>
  \<open>questions.forEach((question, index) => validateQuestion(question, index))\<close>: the callback
  runs on the questions in order, and the first exception leaves the loop.
\<close>

fun forEachQuestion :: "CreateQuestionDto list \<Rightarrow> nat \<Rightarrow> error + unit" where
  "forEachQuestion [] index = Inr ()"
| "forEachQuestion (question # rest) index =
     (case validateQuestion question index of
        Inl e \<Rightarrow> Inl e
      | Inr _ \<Rightarrow> forEachQuestion rest (index + 1))"

definition validateQuiz :: "CreateQuizDto \<Rightarrow> error + unit" where
  "validateQuiz createQuizDto =
     (case questions createQuizDto of
        None \<Rightarrow> Inl EmptyQuiz
      | Some qs \<Rightarrow> if length qs = 0 then Inl EmptyQuiz else forEachQuestion qs 0)"

section \<open>Progress gate (CourseProgressService)\<close>

subsection \<open>Entities and repositories\<close>

text \<open>
  Modelled from the spec: the enum \<open>ProgressStatus\<close>, the entity classes \<open>Enrollment\<close>,
  \<open>Lesson\<close>, \<open>Quiz\<close>, \<open>QuizAttempt\<close> and \<open>CourseProgress\<close> and the DTO classes of the
  service, which it imports and whose declarations are not among the sources. The fields
  below are the ones the service reads. \<open>enrollment.user\<close> is loaded with the enrollment
  (\<open>relations: ['user']\<close>) and is read without a null test, so it is a plain field. A
  progress row carries its enrollment and its lesson, as \<open>findOne\<close> loads them
  (\<open>relations: ['enrollment', 'lesson']\<close>) and as \<open>create\<close> sets them. The statuses are
  those of the data model: NOT_STARTED (the default), IN_PROGRESS and COMPLETED.
\<close>

datatype ProgressStatus = NOT_STARTED | IN_PROGRESS | COMPLETED

record User =
  user_id :: string

record Enrollment =
  enrollment_id :: string
  user :: User

record Lesson =
  lesson_id :: string
  lesson_title :: string

record Quiz =
  quiz_id :: string
  quiz_title :: string
  quiz_lesson_id :: string

record QuizAttempt =
  attempt_user_id :: string
  attempt_quiz_id :: string
  passed :: bool

record CourseProgress =
  enrollment :: Enrollment
  lesson :: Lesson
  status :: ProgressStatus

record UpdateProgressDto =
  dto_enrollmentId :: string
  dto_lessonId :: string
  dto_status :: ProgressStatus

record CourseProgressResponseDto =
  res_enrollmentId :: string
  res_lessonId :: string
  res_status :: ProgressStatus
  res_lessonTitle :: string

record CompletionRateResponseDto =
  cr_enrollmentId :: string
  cr_completed :: nat
  cr_total :: nat
  cr_completionRate :: int

text \<open>
  A repository is the list of its rows in the order the store returns them. \<open>find(where)\<close>
  is \<open>filter\<close>, \<open>findOne(where)\<close> is \<open>find\<close> (the first row that matches, or nothing) and
  \<open>count(where)\<close> is the length of the filtered list. The data model does not make an
  attempt unique per user and quiz: several attempts of one user at one quiz may be stored,
  and \<open>findOne\<close> returns the first of them.
\<close>

record Repos =
  enrollmentRepo :: "Enrollment list"
  lessonRepo :: "Lesson list"
  quizRepo :: "Quiz list"
  quizAttemptRepo :: "QuizAttempt list"
  progressRepo :: "CourseProgress list"

fun findIndex :: "('a \<Rightarrow> bool) \<Rightarrow> 'a list \<Rightarrow> nat option" where
  "findIndex P [] = None"
| "findIndex P (x # xs) = (if P x then Some 0 else map_option Suc (findIndex P xs))"

subsection \<open>updateProgress\<close>

definition responseToDto :: "CourseProgress \<Rightarrow> CourseProgressResponseDto" where
  "responseToDto progress =
     \<lparr>res_enrollmentId = enrollment_id (enrollment progress),
      res_lessonId = lesson_id (lesson progress),
      res_status = status progress,
      res_lessonTitle = lesson_title (lesson progress)\<rparr>"

definition findAttempt :: "QuizAttempt list \<Rightarrow> string \<Rightarrow> string \<Rightarrow> QuizAttempt option" where
  "findAttempt attempts userId quizId =
     find (\<lambda>a. attempt_user_id a = userId \<and> attempt_quiz_id a = quizId) attempts"

text \<open>The test \<open>!attempt || !attempt.passed\<close> on the result of \<open>findOne\<close>.\<close>

definition notPassed :: "QuizAttempt option \<Rightarrow> bool" where
  "notPassed attempt = (case attempt of None \<Rightarrow> True | Some a \<Rightarrow> \<not> passed a)"

text \<open>The \<open>for (const quiz of quizzes)\<close> loop; the \<open>throw\<close> leaves it.\<close>

fun forQuizzes :: "QuizAttempt list \<Rightarrow> string \<Rightarrow> Quiz list \<Rightarrow> error + unit" where
  "forQuizzes attempts userId [] = Inr ()"
| "forQuizzes attempts userId (quiz # rest) =
     (let attempt = findAttempt attempts userId (quiz_id quiz)
      in if notPassed attempt then Inl (QuizRequirementUnmet (quiz_title quiz))
         else forQuizzes attempts userId rest)"

definition checkQuizRequirements :: "Repos \<Rightarrow> string \<Rightarrow> string \<Rightarrow> error + unit" where
  "checkQuizRequirements st userId lessonId =
     (let quizzes = filter (\<lambda>q. quiz_lesson_id q = lessonId) (quizRepo st)
      in if length quizzes = 0 then Inr () else forQuizzes (quizAttemptRepo st) userId quizzes)"

text \<open>
  \<open>updateProgress\<close> returns its result and the repositories after the call. A row found by
  \<open>findOne\<close> is updated where it stands; a created one is inserted after the others.
\<close>

definition updateProgress ::
  "Repos \<Rightarrow> UpdateProgressDto \<Rightarrow> (error + CourseProgressResponseDto) \<times> Repos" where
  "updateProgress st dto =
     (case find (\<lambda>e. enrollment_id e = dto_enrollmentId dto) (enrollmentRepo st) of
        None \<Rightarrow> (Inl EnrollmentNotFound, st)
      | Some enrollment' \<Rightarrow>
     (case find (\<lambda>l. lesson_id l = dto_lessonId dto) (lessonRepo st) of
        None \<Rightarrow> (Inl LessonNotFound, st)
      | Some lesson' \<Rightarrow>
     (case (if dto_status dto = COMPLETED
            then checkQuizRequirements st (user_id (user enrollment')) (dto_lessonId dto)
            else Inr ()) of
        Inl e \<Rightarrow> (Inl e, st)
      | Inr _ \<Rightarrow>
     (case findIndex (\<lambda>p. enrollment_id (enrollment p) = dto_enrollmentId dto
                          \<and> lesson_id (lesson p) = dto_lessonId dto) (progressRepo st) of
        None \<Rightarrow>
          (let progress = \<lparr>enrollment = enrollment', lesson = lesson', status = dto_status dto\<rparr>
           in (Inr (responseToDto progress),
               st\<lparr>progressRepo := progressRepo st @ [progress]\<rparr>))
      | Some i \<Rightarrow>
          (let progress = (progressRepo st ! i)\<lparr>status := dto_status dto\<rparr>
           in (Inr (responseToDto progress),
               st\<lparr>progressRepo := (progressRepo st)[i := progress]\<rparr>))))))"

text \<open>The data-model invariant: one row per (enrollment id, lesson id) pair.\<close>

definition progressKey :: "CourseProgress \<Rightarrow> string \<times> string" where
  "progressKey p = (enrollment_id (enrollment p), lesson_id (lesson p))"

definition uniquePairs :: "CourseProgress list \<Rightarrow> bool" where
  "uniquePairs ps = distinct (map progressKey ps)"

subsection \<open>getCompletionRate\<close>

text \<open>
  JavaScript numbers are IEEE 754 binary64 values. A finite one is a rational number, and
  every arithmetic operation returns the exact result rounded to the nearest value with a
  53-bit significand, ties to the even significand. \<open>toDouble\<close> is that rounding on the
  normal range (no overflow, no subnormal results), which holds every value computed here:
  quotients of two row counts, and their products with 100.
\<close>

definition pow2 :: "int \<Rightarrow> rat" where
  "pow2 e = (if 0 \<le> e then 2 ^ nat e else 1 / 2 ^ nat (- e))"

text \<open>The binary exponent of a positive rational: \<open>pow2 e \<le> x < pow2 (e + 1)\<close>.\<close>

definition floorLog2 :: "rat \<Rightarrow> int" where
  "floorLog2 x = (if 1 \<le> x then bitlen \<lfloor>x\<rfloor> - 1 else - bitlen (\<lceil>1 / x\<rceil> - 1))"

definition roundHalfEven :: "rat \<Rightarrow> int" where
  "roundHalfEven x =
     (let f = \<lfloor>x\<rfloor>; d = x - of_int f
      in if d < 1 / 2 then f else if 1 / 2 < d then f + 1 else if even f then f else f + 1)"

definition toDouble :: "rat \<Rightarrow> rat" where
  "toDouble x =
     (if x = 0 then 0
      else if x < 0 then - (let ulp = pow2 (floorLog2 (- x) - 52)
                            in of_int (roundHalfEven (- x / ulp)) * ulp)
      else (let ulp = pow2 (floorLog2 x - 52) in of_int (roundHalfEven (x / ulp)) * ulp))"

text \<open>The operators \<open>/\<close> and \<open>*\<close> on numbers.\<close>

definition divideNumber :: "rat \<Rightarrow> rat \<Rightarrow> rat" where
  "divideNumber a b = toDouble (a / b)"

definition timesNumber :: "rat \<Rightarrow> rat \<Rightarrow> rat" where
  "timesNumber a b = toDouble (a * b)"

text \<open>
  \<open>Math.round\<close>: the integer closest to its argument, the one towards plus infinity when two
  are equally close.
\<close>

definition Math_round :: "rat \<Rightarrow> int" where
  "Math_round x = \<lfloor>x + 1 / 2\<rfloor>"

text \<open>
  \<open>count\<close> returns a number; a row count is far below \<open>2 ^ 53\<close> and so is itself a double.
  The division is only reached with \<open>total\<close> different from 0.
\<close>

definition getCompletionRate :: "Repos \<Rightarrow> string \<Rightarrow> CompletionRateResponseDto" where
  "getCompletionRate st enrollmentId =
     (let total = length (filter (\<lambda>p. enrollment_id (enrollment p) = enrollmentId)
                            (progressRepo st))
      in if total = 0
         then \<lparr>cr_enrollmentId = enrollmentId, cr_completed = 0, cr_total = 0,
               cr_completionRate = 0\<rparr>
         else (let completed =
                     length (filter (\<lambda>p. enrollment_id (enrollment p) = enrollmentId
                                          \<and> status p = COMPLETED) (progressRepo st))
               in \<lparr>cr_enrollmentId = enrollmentId, cr_completed = completed, cr_total = total,
                   cr_completionRate =
                     Math_round (timesNumber (divideNumber (of_nat completed) (of_nat total)) 100)\<rparr>))"

subsection \<open>Example data\<close>

text \<open>
  One enrollment of user u1, one lesson, and two quizzes A and B attached to the lesson, in
  that order; the attempts and the progress rows vary.
\<close>

definition exampleEnrollment :: Enrollment where
  "exampleEnrollment = \<lparr>enrollment_id = ''e1'', user = \<lparr>user_id = ''u1''\<rparr>\<rparr>"

definition exampleLesson :: Lesson where
  "exampleLesson = \<lparr>lesson_id = ''l1'', lesson_title = ''Intro''\<rparr>"

definition quizA :: Quiz where
  "quizA = \<lparr>quiz_id = ''qA'', quiz_title = ''Quiz A'', quiz_lesson_id = ''l1''\<rparr>"

definition quizB :: Quiz where
  "quizB = \<lparr>quiz_id = ''qB'', quiz_title = ''Quiz B'', quiz_lesson_id = ''l1''\<rparr>"

definition exampleRepos :: "Quiz list \<Rightarrow> QuizAttempt list \<Rightarrow> CourseProgress list \<Rightarrow> Repos" where
  "exampleRepos quizzes attempts progress =
     \<lparr>enrollmentRepo = [exampleEnrollment], lessonRepo = [exampleLesson],
      quizRepo = quizzes, quizAttemptRepo = attempts, progressRepo = progress\<rparr>"

definition exampleDto :: "ProgressStatus \<Rightarrow> UpdateProgressDto" where
  "exampleDto s = \<lparr>dto_enrollmentId = ''e1'', dto_lessonId = ''l1'', dto_status = s\<rparr>"

definition exampleRow :: "ProgressStatus \<Rightarrow> CourseProgress" where
  "exampleRow s = \<lparr>enrollment = exampleEnrollment, lesson = exampleLesson, status = s\<rparr>"

section \<open>Properties of the validator\<close>

lemma forEachQuestion_first_failure:
  "(\<forall>i<length pre. validateQuestion (pre ! i) (k + i) = Inr ()) \<Longrightarrow>
   validateQuestion q (k + length pre) = Inl e \<Longrightarrow>
   forEachQuestion (pre @ q # post) k = Inl e"
proof (induction pre arbitrary: k)
  case Nil
  then show ?case by simp
next
  case (Cons p pre)
  have p: "validateQuestion p k = Inr ()" using Cons.prems(1) by fastforce
  have rest: "\<forall>i<length pre. validateQuestion (pre ! i) (Suc k + i) = Inr ()"
    using Cons.prems(1) by fastforce
  have "forEachQuestion (pre @ q # post) (Suc k) = Inl e"
    using Cons.IH [OF rest] Cons.prems(2) by simp
  then show ?case using p by simp
qed

lemma forEachQuestion_all_valid:
  "(\<forall>i<length qs. validateQuestion (qs ! i) (k + i) = Inr ()) \<Longrightarrow>
   forEachQuestion qs k = Inr ()"
proof (induction qs arbitrary: k)
  case Nil
  then show ?case by simp
next
  case (Cons p qs)
  have p: "validateQuestion p k = Inr ()" using Cons.prems(1) by fastforce
  have rest: "\<forall>i<length qs. validateQuestion (qs ! i) (Suc k + i) = Inr ()"
    using Cons.prems(1) by fastforce
  show ?case using Cons.IH [OF rest] p by simp
qed

text \<open>
  Claim C2. A quiz whose \<open>questions\<close> array is missing or empty fails with \<open>EmptyQuiz\<close>.
  Otherwise the questions are validated in order: when the questions before \<open>q\<close> all pass
  and \<open>q\<close> fails with \<open>e\<close>, the quiz fails with exactly \<open>e\<close>, whatever the questions \<open>post\<close>
  after \<open>q\<close> are (none of them is validated); when every question passes, the quiz passes.
  Within one question the non-empty-answers check comes first, for every question type, and
  only then the rule of the type.
\<close>

theorem validateQuiz_fail_fast:
  "(questions dto0 = None \<or> questions dto0 = Some [] \<longrightarrow> validateQuiz dto0 = Inl EmptyQuiz)
   \<and> (questions dto1 = Some (pre @ q # post)
        \<and> (\<forall>i<length pre. validateQuestion (pre ! i) i = Inr ())
        \<and> validateQuestion q (length pre) = Inl e
      \<longrightarrow> validateQuiz dto1 = Inl e)
   \<and> (questions dto2 = Some qs \<and> qs \<noteq> []
        \<and> (\<forall>i<length qs. validateQuestion (qs ! i) i = Inr ())
      \<longrightarrow> validateQuiz dto2 = Inr ())
   \<and> (answers q0 = None \<or> answers q0 = Some [] \<longrightarrow>
        validateQuestion q0 j = Inl (EmptyAnswers (j + 1)))
   \<and> (answers q1 = Some as \<and> as \<noteq> [] \<longrightarrow>
        validateQuestion q1 j =
          (case question_type q1 of
             UNIQUE \<Rightarrow> validateUniqueQuestion as (j + 1)
           | MULTIPLE \<Rightarrow> validateMultipleQuestion as (j + 1)
           | TEXT \<Rightarrow> validateTextQuestion as (j + 1)
           | BOOL \<Rightarrow> validateBoolQuestion as (j + 1)
           | OtherType t \<Rightarrow> Inl (UnknownQuestionType (j + 1))))"
proof (intro conjI impI)
  assume "questions dto0 = None \<or> questions dto0 = Some []"
  then show "validateQuiz dto0 = Inl EmptyQuiz"
    by (auto simp: validateQuiz_def)
next
  assume h: "questions dto1 = Some (pre @ q # post)
        \<and> (\<forall>i<length pre. validateQuestion (pre ! i) i = Inr ())
        \<and> validateQuestion q (length pre) = Inl e"
  then have "forEachQuestion (pre @ q # post) 0 = Inl e"
    using forEachQuestion_first_failure [of pre 0 q e post] by simp
  with h show "validateQuiz dto1 = Inl e"
    by (simp add: validateQuiz_def)
next
  assume h: "questions dto2 = Some qs \<and> qs \<noteq> []
        \<and> (\<forall>i<length qs. validateQuestion (qs ! i) i = Inr ())"
  then have "forEachQuestion qs 0 = Inr ()"
    using forEachQuestion_all_valid [of qs 0] by simp
  with h show "validateQuiz dto2 = Inr ()"
    by (simp add: validateQuiz_def)
next
  assume "answers q0 = None \<or> answers q0 = Some []"
  then show "validateQuestion q0 j = Inl (EmptyAnswers (j + 1))"
    by (auto simp: validateQuestion_def)
next
  assume "answers q1 = Some as \<and> as \<noteq> []"
  then show "validateQuestion q1 j =
          (case question_type q1 of
             UNIQUE \<Rightarrow> validateUniqueQuestion as (j + 1)
           | MULTIPLE \<Rightarrow> validateMultipleQuestion as (j + 1)
           | TEXT \<Rightarrow> validateTextQuestion as (j + 1)
           | BOOL \<Rightarrow> validateBoolQuestion as (j + 1)
           | OtherType t \<Rightarrow> Inl (UnknownQuestionType (j + 1)))"
    by (simp add: validateQuestion_def)
qed

text \<open>
  A quiz of three questions: a valid TEXT question, a UNIQUE question with two correct
  answers, and a question of an unknown type with no answers. The second question's error is
  the result; the third question, invalid as well, is not reported.
\<close>

theorem validateQuiz_fail_fast_witness:
  "validateQuiz \<lparr>questions = Some []\<rparr> = Inl EmptyQuiz
   \<and> validateQuestion \<lparr>question_type = TEXT,
        answers = Some [\<lparr>answer_text = ''4'', correct = True\<rparr>]\<rparr> 0 = Inr ()
   \<and> validateQuiz \<lparr>questions = Some
        [\<lparr>question_type = TEXT, answers = Some [\<lparr>answer_text = ''4'', correct = True\<rparr>]\<rparr>,
         \<lparr>question_type = UNIQUE, answers = Some
            [\<lparr>answer_text = ''a'', correct = True\<rparr>, \<lparr>answer_text = ''b'', correct = True\<rparr>]\<rparr>,
         \<lparr>question_type = OtherType ''essay'', answers = None\<rparr>]\<rparr>
       = Inl (InvalidUniqueQuestion 2 CorrectCount)
   \<and> validateQuiz \<lparr>questions = Some
        [\<lparr>question_type = TEXT, answers = Some [\<lparr>answer_text = ''4'', correct = True\<rparr>]\<rparr>]\<rparr>
       = Inr ()
   \<and> validateQuestion \<lparr>question_type = OtherType ''essay'', answers = None\<rparr> 2
       = Inl (EmptyAnswers 3)
   \<and> validateQuestion \<lparr>question_type = OtherType ''essay'',
        answers = Some [\<lparr>answer_text = ''x'', correct = True\<rparr>]\<rparr> 2
       = Inl (UnknownQuestionType 3)"
  using validateQuiz_fail_fast
    [where ?dto0.0 = "\<lparr>questions = Some []\<rparr>"
       and ?dto1.0 = "\<lparr>questions = Some
        [\<lparr>question_type = TEXT, answers = Some [\<lparr>answer_text = ''4'', correct = True\<rparr>]\<rparr>,
         \<lparr>question_type = UNIQUE, answers = Some
            [\<lparr>answer_text = ''a'', correct = True\<rparr>, \<lparr>answer_text = ''b'', correct = True\<rparr>]\<rparr>,
         \<lparr>question_type = OtherType ''essay'', answers = None\<rparr>]\<rparr>"
       and pre = "[\<lparr>question_type = TEXT,
                    answers = Some [\<lparr>answer_text = ''4'', correct = True\<rparr>]\<rparr>]"
       and q = "\<lparr>question_type = UNIQUE, answers = Some
            [\<lparr>answer_text = ''a'', correct = True\<rparr>, \<lparr>answer_text = ''b'', correct = True\<rparr>]\<rparr>"
       and post = "[\<lparr>question_type = OtherType ''essay'', answers = None\<rparr>]"
       and e = "InvalidUniqueQuestion 2 CorrectCount"
       and ?dto2.0 = "\<lparr>questions = Some
        [\<lparr>question_type = TEXT, answers = Some [\<lparr>answer_text = ''4'', correct = True\<rparr>]\<rparr>]\<rparr>"
       and qs = "[\<lparr>question_type = TEXT,
                   answers = Some [\<lparr>answer_text = ''4'', correct = True\<rparr>]\<rparr>]"
       and ?q0.0 = "\<lparr>question_type = OtherType ''essay'', answers = None\<rparr>"
       and j = 2
       and ?q1.0 = "\<lparr>question_type = OtherType ''essay'',
                     answers = Some [\<lparr>answer_text = ''x'', correct = True\<rparr>]\<rparr>"
       and as = "[\<lparr>answer_text = ''x'', correct = True\<rparr>]"]
  by (simp add: validateQuestion_def validateTextQuestion_def validateUniqueQuestion_def
      correctAnswers_def)

text \<open>
  The BOOL rule by itself, on the answers it is given: it passes exactly when there are 2
  answers, 1 of them marked correct, and the lower-cased answer texts contain both \<open>true\<close>
  and \<open>false\<close>, or both \<open>yes\<close> and \<open>no\<close>; every other outcome of the rule is an
  \<open>InvalidBoolQuestion\<close>.
\<close>

lemma validateBoolQuestion_rule:
  "(validateBoolQuestion as n = Inr ()) =
     (length as = 2 \<and> length (filter correct as) = 1 \<and>
      ((''true'' \<in> set (map (\<lambda>a. toLowerCase (answer_text a)) as) \<and>
        ''false'' \<in> set (map (\<lambda>a. toLowerCase (answer_text a)) as)) \<or>
       (''yes'' \<in> set (map (\<lambda>a. toLowerCase (answer_text a)) as) \<and>
        ''no'' \<in> set (map (\<lambda>a. toLowerCase (answer_text a)) as))))
   \<and> (validateBoolQuestion as n = Inr () \<or>
        validateBoolQuestion as n = Inl (InvalidBoolQuestion n AnswerCount) \<or>
        validateBoolQuestion as n = Inl (InvalidBoolQuestion n CorrectCount) \<or>
        validateBoolQuestion as n = Inl (InvalidBoolQuestion n BoolOptions))
   \<and> (validateQuestion \<lparr>question_type = BOOL, answers = oas\<rparr> i = Inr ()) =
       (case oas of None \<Rightarrow> False | Some bs \<Rightarrow> validateBoolQuestion bs (i + 1) = Inr ())
   \<and> validateQuestion \<lparr>question_type = BOOL, answers = Some
         [\<lparr>answer_text = ''True'', correct = True\<rparr>,
          \<lparr>answer_text = ''False'', correct = False\<rparr>]\<rparr> i = Inr ()
   \<and> validateQuestion \<lparr>question_type = BOOL, answers = Some
         [\<lparr>answer_text = ''Maybe'', correct = True\<rparr>,
          \<lparr>answer_text = ''No'', correct = False\<rparr>]\<rparr> i
       = Inl (InvalidBoolQuestion (i + 1) BoolOptions)"
proof (intro conjI)
  show "(validateBoolQuestion as n = Inr ()) =
     (length as = 2 \<and> length (filter correct as) = 1 \<and>
      ((''true'' \<in> set (map (\<lambda>a. toLowerCase (answer_text a)) as) \<and>
        ''false'' \<in> set (map (\<lambda>a. toLowerCase (answer_text a)) as)) \<or>
       (''yes'' \<in> set (map (\<lambda>a. toLowerCase (answer_text a)) as) \<and>
        ''no'' \<in> set (map (\<lambda>a. toLowerCase (answer_text a)) as))))"
    unfolding validateBoolQuestion_def hasValidBoolOptions_def correctAnswers_def
    by (simp del: set_map)
  show "validateBoolQuestion as n = Inr () \<or>
        validateBoolQuestion as n = Inl (InvalidBoolQuestion n AnswerCount) \<or>
        validateBoolQuestion as n = Inl (InvalidBoolQuestion n CorrectCount) \<or>
        validateBoolQuestion as n = Inl (InvalidBoolQuestion n BoolOptions)"
    unfolding validateBoolQuestion_def by simp
  show "(validateQuestion \<lparr>question_type = BOOL, answers = oas\<rparr> i = Inr ()) =
       (case oas of None \<Rightarrow> False | Some bs \<Rightarrow> validateBoolQuestion bs (i + 1) = Inr ())"
    by (cases oas) (auto simp: validateQuestion_def validateBoolQuestion_def)
  show "validateQuestion \<lparr>question_type = BOOL, answers = Some
         [\<lparr>answer_text = ''True'', correct = True\<rparr>,
          \<lparr>answer_text = ''False'', correct = False\<rparr>]\<rparr> i = Inr ()"
    by (simp add: validateQuestion_def validateBoolQuestion_def correctAnswers_def
        hasValidBoolOptions_def toLowerCase_def lowerChar_def)
  show "validateQuestion \<lparr>question_type = BOOL, answers = Some
         [\<lparr>answer_text = ''Maybe'', correct = True\<rparr>,
          \<lparr>answer_text = ''No'', correct = False\<rparr>]\<rparr> i
       = Inl (InvalidBoolQuestion (i + 1) BoolOptions)"
    by (simp add: validateQuestion_def validateBoolQuestion_def correctAnswers_def
        hasValidBoolOptions_def toLowerCase_def lowerChar_def)
qed

text \<open>
  Claim C4, as stated, fails: a BOOL question with no answers does not pass, and validation
  stops at the non-empty-answers check of \<open>validateQuestion\<close> with \<open>EmptyAnswers\<close>, before
  the BOOL rule is reached; the error is not an \<open>InvalidBoolQuestion\<close>.
\<close>

theorem bool_empty_answers_counterexample:
  "validateQuestion \<lparr>question_type = BOOL, answers = Some []\<rparr> 0 = Inl (EmptyAnswers 1)
   \<and> validateQuestion \<lparr>question_type = BOOL, answers = Some []\<rparr> 0 \<noteq> Inr ()
   \<and> validateQuestion \<lparr>question_type = BOOL, answers = Some []\<rparr> 0
        \<noteq> Inl (InvalidBoolQuestion 1 AnswerCount)
   \<and> validateQuestion \<lparr>question_type = BOOL, answers = Some []\<rparr> 0
        \<noteq> Inl (InvalidBoolQuestion 1 CorrectCount)
   \<and> validateQuestion \<lparr>question_type = BOOL, answers = Some []\<rparr> 0
        \<noteq> Inl (InvalidBoolQuestion 1 BoolOptions)"
  by (simp add: validateQuestion_def)

text \<open>
  Claim C4, amended. A BOOL question passes validation exactly when it has exactly 2
  answers, exactly 1 of them marked correct, and the lower-cased answer texts contain both
  \<open>true\<close> and \<open>false\<close>, or both \<open>yes\<close> and \<open>no\<close>. A BOOL question with at least one answer
  that does not pass fails with \<open>InvalidBoolQuestion\<close>; a BOOL question with no answers fails
  with \<open>EmptyAnswers\<close>. The pair True (correct) / False passes; the pair Maybe (correct) / No
  fails with \<open>InvalidBoolQuestion\<close>.
\<close>

theorem validateBoolQuestion_nonempty:
  "(question_type q = BOOL \<and> answers q = Some as \<longrightarrow>
      (validateQuestion q i = Inr ()) =
        (length as = 2 \<and> length (filter correct as) = 1 \<and>
         ((''true'' \<in> set (map (\<lambda>a. toLowerCase (answer_text a)) as) \<and>
           ''false'' \<in> set (map (\<lambda>a. toLowerCase (answer_text a)) as)) \<or>
          (''yes'' \<in> set (map (\<lambda>a. toLowerCase (answer_text a)) as) \<and>
           ''no'' \<in> set (map (\<lambda>a. toLowerCase (answer_text a)) as)))))
   \<and> (question_type q = BOOL \<and> answers q = Some as \<and> as \<noteq> []
        \<and> validateQuestion q i \<noteq> Inr ()
      \<longrightarrow> validateQuestion q i = Inl (InvalidBoolQuestion (i + 1) AnswerCount)
          \<or> validateQuestion q i = Inl (InvalidBoolQuestion (i + 1) CorrectCount)
          \<or> validateQuestion q i = Inl (InvalidBoolQuestion (i + 1) BoolOptions))
   \<and> (question_type q0 = BOOL \<and> (answers q0 = None \<or> answers q0 = Some [])
      \<longrightarrow> validateQuestion q0 i = Inl (EmptyAnswers (i + 1)))
   \<and> validateQuestion \<lparr>question_type = BOOL, answers = Some
         [\<lparr>answer_text = ''True'', correct = True\<rparr>,
          \<lparr>answer_text = ''False'', correct = False\<rparr>]\<rparr> i = Inr ()
   \<and> validateQuestion \<lparr>question_type = BOOL, answers = Some
         [\<lparr>answer_text = ''Maybe'', correct = True\<rparr>,
          \<lparr>answer_text = ''No'', correct = False\<rparr>]\<rparr> i
       = Inl (InvalidBoolQuestion (i + 1) BoolOptions)"
proof (intro conjI impI)
  let ?cond = "length as = 2 \<and> length (filter correct as) = 1 \<and>
         ((''true'' \<in> set (map (\<lambda>a. toLowerCase (answer_text a)) as) \<and>
           ''false'' \<in> set (map (\<lambda>a. toLowerCase (answer_text a)) as)) \<or>
          (''yes'' \<in> set (map (\<lambda>a. toLowerCase (answer_text a)) as) \<and>
           ''no'' \<in> set (map (\<lambda>a. toLowerCase (answer_text a)) as)))"
  note rule = validateBoolQuestion_rule [of as "i + 1"]
  {
    assume h: "question_type q = BOOL \<and> answers q = Some as"
    show "(validateQuestion q i = Inr ()) = ?cond"
    proof (cases "as = []")
      case True
      with h show ?thesis by (simp add: validateQuestion_def)
    next
      case False
      with h have "validateQuestion q i = validateBoolQuestion as (i + 1)"
        by (simp add: validateQuestion_def)
      with rule show ?thesis by simp
    qed
  }
  {
    assume h: "question_type q = BOOL \<and> answers q = Some as \<and> as \<noteq> []
        \<and> validateQuestion q i \<noteq> Inr ()"
    then have eq: "validateQuestion q i = validateBoolQuestion as (i + 1)"
      by (simp add: validateQuestion_def)
    from rule have "validateBoolQuestion as (i + 1) = Inr () \<or>
        validateBoolQuestion as (i + 1) = Inl (InvalidBoolQuestion (i + 1) AnswerCount) \<or>
        validateBoolQuestion as (i + 1) = Inl (InvalidBoolQuestion (i + 1) CorrectCount) \<or>
        validateBoolQuestion as (i + 1) = Inl (InvalidBoolQuestion (i + 1) BoolOptions)"
      by blast
    with h eq show "validateQuestion q i = Inl (InvalidBoolQuestion (i + 1) AnswerCount)
          \<or> validateQuestion q i = Inl (InvalidBoolQuestion (i + 1) CorrectCount)
          \<or> validateQuestion q i = Inl (InvalidBoolQuestion (i + 1) BoolOptions)"
      by simp
  }
  {
    assume "question_type q0 = BOOL \<and> (answers q0 = None \<or> answers q0 = Some [])"
    then show "validateQuestion q0 i = Inl (EmptyAnswers (i + 1))"
      by (auto simp: validateQuestion_def)
  }
  show "validateQuestion \<lparr>question_type = BOOL, answers = Some
         [\<lparr>answer_text = ''True'', correct = True\<rparr>,
          \<lparr>answer_text = ''False'', correct = False\<rparr>]\<rparr> i = Inr ()"
    using validateBoolQuestion_rule [of as "i + 1" None i] by blast
  show "validateQuestion \<lparr>question_type = BOOL, answers = Some
         [\<lparr>answer_text = ''Maybe'', correct = True\<rparr>,
          \<lparr>answer_text = ''No'', correct = False\<rparr>]\<rparr> i
       = Inl (InvalidBoolQuestion (i + 1) BoolOptions)"
    using validateBoolQuestion_rule [of as "i + 1" None i] by blast
qed

text \<open>
  A BOOL question with the answers Maybe (correct) / No, and one with no \<open>answers\<close> array.
\<close>

theorem validateBoolQuestion_nonempty_witness:
  "validateQuestion \<lparr>question_type = BOOL, answers = Some
       [\<lparr>answer_text = ''Maybe'', correct = True\<rparr>,
        \<lparr>answer_text = ''No'', correct = False\<rparr>]\<rparr> 0 \<noteq> Inr ()
   \<and> validateQuestion \<lparr>question_type = BOOL, answers = Some
       [\<lparr>answer_text = ''Maybe'', correct = True\<rparr>,
        \<lparr>answer_text = ''No'', correct = False\<rparr>]\<rparr> 0
       = Inl (InvalidBoolQuestion 1 BoolOptions)
   \<and> validateQuestion \<lparr>question_type = BOOL, answers = Some
       [\<lparr>answer_text = ''YES'', correct = False\<rparr>,
        \<lparr>answer_text = ''no'', correct = True\<rparr>]\<rparr> 0 = Inr ()
   \<and> validateQuestion \<lparr>question_type = BOOL, answers = None\<rparr> 0 = Inl (EmptyAnswers 1)"
  using validateBoolQuestion_nonempty
    [where q = "\<lparr>question_type = BOOL, answers = Some
       [\<lparr>answer_text = ''Maybe'', correct = True\<rparr>,
        \<lparr>answer_text = ''No'', correct = False\<rparr>]\<rparr>"
       and as = "[\<lparr>answer_text = ''Maybe'', correct = True\<rparr>,
                  \<lparr>answer_text = ''No'', correct = False\<rparr>]"
       and ?q0.0 = "\<lparr>question_type = BOOL, answers = None\<rparr>" and i = 0]
    validateBoolQuestion_nonempty
    [where q = "\<lparr>question_type = BOOL, answers = Some
       [\<lparr>answer_text = ''YES'', correct = False\<rparr>,
        \<lparr>answer_text = ''no'', correct = True\<rparr>]\<rparr>"
       and as = "[\<lparr>answer_text = ''YES'', correct = False\<rparr>,
                  \<lparr>answer_text = ''no'', correct = True\<rparr>]"
       and ?q0.0 = "\<lparr>question_type = BOOL, answers = None\<rparr>" and i = 0]
  by (simp add: validateQuestion_def validateBoolQuestion_def correctAnswers_def
      hasValidBoolOptions_def toLowerCase_def lowerChar_def)

text \<open>
  Claim C5, as stated, fails: a UNIQUE question with no answers has zero answers marked
  correct, which is not exactly 1, and validation stops at the non-empty-answers check of
  \<open>validateQuestion\<close> with \<open>EmptyAnswers\<close>, before the UNIQUE rule is reached.
\<close>

theorem unique_empty_answers_counterexample:
  "length (correctAnswers []) \<noteq> 1
   \<and> validateQuestion \<lparr>question_type = UNIQUE, answers = Some []\<rparr> 0 = Inl (EmptyAnswers 1)
   \<and> validateQuestion \<lparr>question_type = UNIQUE, answers = Some []\<rparr> 0
        \<noteq> Inl (InvalidUniqueQuestion 1 AnswerCount)
   \<and> validateQuestion \<lparr>question_type = UNIQUE, answers = Some []\<rparr> 0
        \<noteq> Inl (InvalidUniqueQuestion 1 CorrectCount)
   \<and> validateQuestion \<lparr>question_type = UNIQUE, answers = Some []\<rparr> 0
        \<noteq> Inl (InvalidUniqueQuestion 1 BoolOptions)"
  by (simp add: validateQuestion_def correctAnswers_def)

text \<open>
  Claim C5, amended. A UNIQUE question with at least one answer whose number of answers
  marked correct is not exactly 1 fails with \<open>InvalidUniqueQuestion\<close>; a UNIQUE question with
  at least 2 answers and exactly 1 marked correct passes; a UNIQUE question with no answers
  fails with \<open>EmptyAnswers\<close>.
\<close>

theorem validateUniqueQuestion_nonempty:
  "(question_type q = UNIQUE \<and> answers q = Some as \<and> as \<noteq> []
      \<and> length (correctAnswers as) \<noteq> 1
     \<longrightarrow> validateQuestion q i = Inl (InvalidUniqueQuestion (i + 1) AnswerCount)
         \<or> validateQuestion q i = Inl (InvalidUniqueQuestion (i + 1) CorrectCount))
   \<and> (question_type q' = UNIQUE \<and> answers q' = Some as' \<and> 2 \<le> length as'
      \<and> length (correctAnswers as') = 1
     \<longrightarrow> validateQuestion q' i = Inr ())
   \<and> (question_type q0 = UNIQUE \<and> (answers q0 = None \<or> answers q0 = Some [])
     \<longrightarrow> validateQuestion q0 i = Inl (EmptyAnswers (i + 1)))"
  by (auto simp: validateQuestion_def validateUniqueQuestion_def)

theorem validateUniqueQuestion_nonempty_witness:
  "validateQuestion \<lparr>question_type = UNIQUE, answers = Some
       [\<lparr>answer_text = ''a'', correct = True\<rparr>, \<lparr>answer_text = ''b'', correct = True\<rparr>]\<rparr> 0
     = Inl (InvalidUniqueQuestion 1 CorrectCount)
   \<and> validateQuestion \<lparr>question_type = UNIQUE, answers = Some
       [\<lparr>answer_text = ''a'', correct = True\<rparr>, \<lparr>answer_text = ''b'', correct = False\<rparr>]\<rparr> 0
     = Inr ()
   \<and> validateQuestion \<lparr>question_type = UNIQUE, answers = None\<rparr> 0 = Inl (EmptyAnswers 1)"
  using validateUniqueQuestion_nonempty
    [where q = "\<lparr>question_type = UNIQUE, answers = Some
       [\<lparr>answer_text = ''a'', correct = True\<rparr>, \<lparr>answer_text = ''b'', correct = True\<rparr>]\<rparr>"
       and as = "[\<lparr>answer_text = ''a'', correct = True\<rparr>, \<lparr>answer_text = ''b'', correct = True\<rparr>]"
       and q' = "\<lparr>question_type = UNIQUE, answers = Some
       [\<lparr>answer_text = ''a'', correct = True\<rparr>, \<lparr>answer_text = ''b'', correct = False\<rparr>]\<rparr>"
       and as' = "[\<lparr>answer_text = ''a'', correct = True\<rparr>, \<lparr>answer_text = ''b'', correct = False\<rparr>]"
       and ?q0.0 = "\<lparr>question_type = UNIQUE, answers = None\<rparr>"
       and i = 0]
  by (simp add: correctAnswers_def validateQuestion_def validateUniqueQuestion_def)

section \<open>Properties of the progress gate\<close>

lemmas example_defs = exampleRepos_def exampleEnrollment_def exampleLesson_def quizA_def
  quizB_def exampleDto_def exampleRow_def

lemmas gate_defs = updateProgress_def checkQuizRequirements_def findAttempt_def notPassed_def
  responseToDto_def progressKey_def uniquePairs_def

lemma findIndex_None_iff: "(findIndex P xs = None) = (\<forall>x\<in>set xs. \<not> P x)"
  by (induction xs) auto

lemma findIndex_SomeD:
  "findIndex P xs = Some i \<Longrightarrow> i < length xs \<and> P (xs ! i) \<and> (\<forall>j<i. \<not> P (xs ! j))"
proof (induction xs arbitrary: i)
  case Nil
  then show ?case by simp
next
  case (Cons x xs)
  show ?case
  proof (cases "P x")
    case True
    with Cons.prems show ?thesis by simp
  next
    case False
    with Cons.prems obtain k where k: "findIndex P xs = Some k" and i: "i = Suc k"
      by auto
    from Cons.IH [OF k] have "k < length xs \<and> P (xs ! k) \<and> (\<forall>j<k. \<not> P (xs ! j))" .
    with False i show ?thesis
      by (auto simp: nth_Cons split: nat.splits)
  qed
qed

lemma forQuizzes_find:
  "forQuizzes attempts userId qs =
     (case find (\<lambda>q. notPassed (findAttempt attempts userId (quiz_id q))) qs of
        None \<Rightarrow> Inr ()
      | Some q \<Rightarrow> Inl (QuizRequirementUnmet (quiz_title q)))"
  by (induction qs) (simp_all add: Let_def)

lemma checkQuizRequirements_find:
  "checkQuizRequirements st userId lessonId =
     (case find (\<lambda>q. notPassed (findAttempt (quizAttemptRepo st) userId (quiz_id q)))
             (filter (\<lambda>q. quiz_lesson_id q = lessonId) (quizRepo st)) of
        None \<Rightarrow> Inr ()
      | Some q \<Rightarrow> Inl (QuizRequirementUnmet (quiz_title q)))"
  by (simp add: checkQuizRequirements_def forQuizzes_find Let_def)

lemma find_append_first:
  "(\<forall>x\<in>set pre. \<not> P x) \<Longrightarrow> P q \<Longrightarrow> find P (pre @ q # post) = Some q"
  by (induction pre) auto


lemma updateProgress_checked:
  assumes e: "find (\<lambda>e. enrollment_id e = dto_enrollmentId dto) (enrollmentRepo st) = Some en"
    and l: "find (\<lambda>l. lesson_id l = dto_lessonId dto) (lessonRepo st) = Some le"
    and c: "dto_status dto = COMPLETED \<longrightarrow>
            checkQuizRequirements st (user_id (user en)) (dto_lessonId dto) = Inr ()"
  shows "updateProgress st dto =
     (case findIndex (\<lambda>p. enrollment_id (enrollment p) = dto_enrollmentId dto
                          \<and> lesson_id (lesson p) = dto_lessonId dto) (progressRepo st) of
        None \<Rightarrow>
          (Inr (responseToDto \<lparr>enrollment = en, lesson = le, status = dto_status dto\<rparr>),
           st\<lparr>progressRepo := progressRepo st @
                 [\<lparr>enrollment = en, lesson = le, status = dto_status dto\<rparr>]\<rparr>)
      | Some i \<Rightarrow>
          (Inr (responseToDto ((progressRepo st ! i)\<lparr>status := dto_status dto\<rparr>)),
           st\<lparr>progressRepo := (progressRepo st)[i := (progressRepo st ! i)\<lparr>status := dto_status dto\<rparr>]\<rparr>))"
  using e l c by (simp add: updateProgress_def Let_def split: option.splits)

lemma updateProgress_unmet:
  assumes e: "find (\<lambda>e. enrollment_id e = dto_enrollmentId dto) (enrollmentRepo st) = Some en"
    and l: "find (\<lambda>l. lesson_id l = dto_lessonId dto) (lessonRepo st) = Some le"
    and s: "dto_status dto = COMPLETED"
    and c: "checkQuizRequirements st (user_id (user en)) (dto_lessonId dto) = Inl err"
  shows "updateProgress st dto = (Inl err, st)"
  using e l c s by (simp add: updateProgress_def)


lemma find_SomeE:
  "\<exists>x\<in>set xs. P x \<Longrightarrow> \<exists>y. find P xs = Some y \<and> P y \<and> y \<in> set xs"
  by (cases "find P xs") (auto simp: find_None_iff find_Some_iff)


lemma findIndex_SomeI:
  "i < length xs \<Longrightarrow> P (xs ! i) \<Longrightarrow> (\<forall>j<i. \<not> P (xs ! j)) \<Longrightarrow> findIndex P xs = Some i"
proof (induction xs arbitrary: i)
  case Nil
  then show ?case by simp
next
  case (Cons x xs)
  show ?case
  proof (cases i)
    case 0
    with Cons.prems show ?thesis by simp
  next
    case (Suc k)
    with Cons.prems have "\<not> P x" by auto
    moreover have "findIndex P xs = Some k"
      using Cons.prems Suc by (intro Cons.IH) auto
    ultimately show ?thesis using Suc by simp
  qed
qed

lemma count_key_le_1:
  "distinct (map f xs) \<Longrightarrow> length (filter (\<lambda>y. f y = k) xs) \<le> 1"
  by (induction xs) (auto simp: filter_empty_conv image_iff)

lemma count_key_pos: "x \<in> set xs \<Longrightarrow> f x = k \<Longrightarrow> 0 < length (filter (\<lambda>y. f y = k) xs)"
  by (auto simp: filter_empty_conv)

text \<open>The three outcomes of a call.\<close>

lemma updateProgress_cases:
  fixes st dto
  defines "P \<equiv> (\<lambda>p. enrollment_id (enrollment p) = dto_enrollmentId dto
                          \<and> lesson_id (lesson p) = dto_lessonId dto)"
  obtains
    (fail) e where "updateProgress st dto = (Inl e, st)"
  | (create) en le where
      "find (\<lambda>e. enrollment_id e = dto_enrollmentId dto) (enrollmentRepo st) = Some en"
      "find (\<lambda>l. lesson_id l = dto_lessonId dto) (lessonRepo st) = Some le"
      "dto_status dto = COMPLETED \<longrightarrow>
            checkQuizRequirements st (user_id (user en)) (dto_lessonId dto) = Inr ()"
      "findIndex P (progressRepo st) = None"
      "updateProgress st dto =
         (Inr (responseToDto \<lparr>enrollment = en, lesson = le, status = dto_status dto\<rparr>),
           st\<lparr>progressRepo := progressRepo st @
                 [\<lparr>enrollment = en, lesson = le, status = dto_status dto\<rparr>]\<rparr>)"
  | (update) en le i where
      "find (\<lambda>e. enrollment_id e = dto_enrollmentId dto) (enrollmentRepo st) = Some en"
      "find (\<lambda>l. lesson_id l = dto_lessonId dto) (lessonRepo st) = Some le"
      "dto_status dto = COMPLETED \<longrightarrow>
            checkQuizRequirements st (user_id (user en)) (dto_lessonId dto) = Inr ()"
      "findIndex P (progressRepo st) = Some i"
      "updateProgress st dto =
          (Inr (responseToDto ((progressRepo st ! i)\<lparr>status := dto_status dto\<rparr>)),
           st\<lparr>progressRepo := (progressRepo st)[i := (progressRepo st ! i)\<lparr>status := dto_status dto\<rparr>]\<rparr>)"
proof (cases "find (\<lambda>e. enrollment_id e = dto_enrollmentId dto) (enrollmentRepo st)")
  case None
  then have "updateProgress st dto = (Inl EnrollmentNotFound, st)"
    by (simp add: updateProgress_def)
  then show ?thesis by (rule fail)
next
  case (Some en)
  note en = this
  show ?thesis
  proof (cases "find (\<lambda>l. lesson_id l = dto_lessonId dto) (lessonRepo st)")
    case None
    with en have "updateProgress st dto = (Inl LessonNotFound, st)"
      by (simp add: updateProgress_def)
    then show ?thesis by (rule fail)
  next
    case (Some le)
    note le = this
    show ?thesis
    proof (cases "dto_status dto = COMPLETED \<longrightarrow>
            checkQuizRequirements st (user_id (user en)) (dto_lessonId dto) = Inr ()")
      case False
      then obtain err where s: "dto_status dto = COMPLETED"
        and c: "checkQuizRequirements st (user_id (user en)) (dto_lessonId dto) = Inl err"
        by (cases "checkQuizRequirements st (user_id (user en)) (dto_lessonId dto)") auto
      from updateProgress_unmet [OF en le s c] show ?thesis by (rule fail)
    next
      case True
      note up = updateProgress_checked [OF en le True]
      show ?thesis
      proof (cases "findIndex P (progressRepo st)")
        case None
        with up show ?thesis using en le True by (intro create) (simp_all add: P_def)
      next
        case (Some i)
        with up show ?thesis using en le True by (intro update) (simp_all add: P_def)
      qed
    qed
  qed
qed


lemma find_Some_holds: "find P xs = Some x \<Longrightarrow> P x"
  by (auto simp: find_Some_iff)



lemma find_Some_set: "find P xs = Some x \<Longrightarrow> x \<in> set xs \<and> P x"
  by (induction xs) (auto split: if_splits)

lemma notPassed_no_passing:
  "\<not> (\<exists>a\<in>set attempts. attempt_user_id a = u \<and> attempt_quiz_id a = q \<and> passed a)
   \<Longrightarrow> notPassed (findAttempt attempts u q)"
  by (cases "findAttempt attempts u q")
     (auto simp: notPassed_def findAttempt_def dest: find_Some_set)

lemma notPassed_unique:
  assumes d: "distinct (map (\<lambda>a. (attempt_user_id a, attempt_quiz_id a)) attempts)"
    and n: "notPassed (findAttempt attempts u q)"
  shows "\<not> (\<exists>a\<in>set attempts. attempt_user_id a = u \<and> attempt_quiz_id a = q \<and> passed a)"
proof
  assume "\<exists>a\<in>set attempts. attempt_user_id a = u \<and> attempt_quiz_id a = q \<and> passed a"
  then obtain a where a: "a \<in> set attempts" "attempt_user_id a = u" "attempt_quiz_id a = q"
    "passed a" by blast
  then obtain b where b: "findAttempt attempts u q = Some b"
    by (cases "findAttempt attempts u q") (auto simp: findAttempt_def find_None_iff)
  then have "b \<in> set attempts" "attempt_user_id b = u" "attempt_quiz_id b = q"
    by (auto simp: findAttempt_def dest: find_Some_set)
  with a d have "a = b"
    by (metis (mono_tags, lifting) inj_on_def distinct_map)
  with n b a show False by (simp add: notPassed_def)
qed

lemma checkQuizRequirements_progressRepo:
  "checkQuizRequirements (st\<lparr>progressRepo := ps\<rparr>) u l = checkQuizRequirements st u l"
  by (simp add: checkQuizRequirements_def Let_def)

text \<open>
  Claim C9. With no enrollment of the given id the call fails with \<open>EnrollmentNotFound\<close>,
  whether the lesson exists or not (the enrollment is looked up first); with the enrollment
  present and no lesson of the given id it fails with \<open>LessonNotFound\<close>. The repositories
  are left as they were.
\<close>

theorem updateProgress_not_found:
  "((\<forall>e\<in>set (enrollmentRepo st). enrollment_id e \<noteq> dto_enrollmentId dto)
      \<longrightarrow> updateProgress st dto = (Inl EnrollmentNotFound, st))
   \<and> ((\<exists>e\<in>set (enrollmentRepo st'). enrollment_id e = dto_enrollmentId dto')
       \<and> (\<forall>l\<in>set (lessonRepo st'). lesson_id l \<noteq> dto_lessonId dto')
      \<longrightarrow> updateProgress st' dto' = (Inl LessonNotFound, st'))"
proof (intro conjI impI)
  assume "\<forall>e\<in>set (enrollmentRepo st). enrollment_id e \<noteq> dto_enrollmentId dto"
  then have "find (\<lambda>e. enrollment_id e = dto_enrollmentId dto) (enrollmentRepo st) = None"
    by (simp add: find_None_iff)
  then show "updateProgress st dto = (Inl EnrollmentNotFound, st)"
    by (simp add: updateProgress_def)
next
  assume h: "(\<exists>e\<in>set (enrollmentRepo st'). enrollment_id e = dto_enrollmentId dto')
       \<and> (\<forall>l\<in>set (lessonRepo st'). lesson_id l \<noteq> dto_lessonId dto')"
  then obtain en where
    "find (\<lambda>e. enrollment_id e = dto_enrollmentId dto') (enrollmentRepo st') = Some en"
    by (cases "find (\<lambda>e. enrollment_id e = dto_enrollmentId dto') (enrollmentRepo st')")
       (auto simp: find_None_iff)
  moreover from h have
    "find (\<lambda>l. lesson_id l = dto_lessonId dto') (lessonRepo st') = None"
    by (simp add: find_None_iff)
  ultimately show "updateProgress st' dto' = (Inl LessonNotFound, st')"
    by (simp add: updateProgress_def)
qed

text \<open>
  In the example repositories: no enrollment e2 (and no lesson l9), then enrollment e1
  with no lesson l9.
\<close>

theorem updateProgress_not_found_witness:
  "updateProgress (exampleRepos [] [] [])
      \<lparr>dto_enrollmentId = ''e2'', dto_lessonId = ''l9'', dto_status = IN_PROGRESS\<rparr>
     = (Inl EnrollmentNotFound, exampleRepos [] [] [])
   \<and> updateProgress (exampleRepos [] [] [])
      \<lparr>dto_enrollmentId = ''e1'', dto_lessonId = ''l9'', dto_status = IN_PROGRESS\<rparr>
     = (Inl LessonNotFound, exampleRepos [] [] [])"
  using updateProgress_not_found
    [where st = "exampleRepos [] [] []"
       and dto = "\<lparr>dto_enrollmentId = ''e2'', dto_lessonId = ''l9'', dto_status = IN_PROGRESS\<rparr>"
       and st' = "exampleRepos [] [] []"
       and dto' = "\<lparr>dto_enrollmentId = ''e1'', dto_lessonId = ''l9'', dto_status = IN_PROGRESS\<rparr>"]
  by (simp add: exampleRepos_def exampleEnrollment_def exampleLesson_def)

text \<open>
  Claim C10. A call that fails leaves every repository, the progress rows among them, as it
  was; and the error of a failing call is \<open>EnrollmentNotFound\<close>, \<open>LessonNotFound\<close> or a
  \<open>QuizRequirementUnmet\<close> naming a stored quiz.
\<close>

theorem updateProgress_atomic_on_failure:
  "fst (updateProgress st dto) = Inl e \<longrightarrow>
     snd (updateProgress st dto) = st
     \<and> (e = EnrollmentNotFound \<or> e = LessonNotFound
         \<or> (\<exists>q\<in>set (quizRepo st). e = QuizRequirementUnmet (quiz_title q)))"
proof
  assume f: "fst (updateProgress st dto) = Inl e"
  have unchanged: "snd (updateProgress st dto) = st"
    using f by (auto simp: updateProgress_def Let_def split: option.splits sum.splits if_splits)
  have kind: "e = EnrollmentNotFound \<or> e = LessonNotFound
         \<or> (\<exists>q\<in>set (quizRepo st). e = QuizRequirementUnmet (quiz_title q))"
  proof (cases "find (\<lambda>e. enrollment_id e = dto_enrollmentId dto) (enrollmentRepo st)")
    case None
    with f show ?thesis by (simp add: updateProgress_def)
  next
    case (Some en)
    show ?thesis
    proof (cases "find (\<lambda>l. lesson_id l = dto_lessonId dto) (lessonRepo st)")
      case None
      with Some f show ?thesis by (simp add: updateProgress_def)
    next
      case (Some le)
      note le = this
      show ?thesis
      proof (cases "dto_status dto = COMPLETED \<longrightarrow>
            checkQuizRequirements st (user_id (user en)) (dto_lessonId dto) = Inr ()")
        case True
        from updateProgress_checked [OF \<open>find _ (enrollmentRepo st) = Some en\<close> le True] f
        show ?thesis by (simp split: option.splits)
      next
        case False
        then obtain err where s: "dto_status dto = COMPLETED"
          and c: "checkQuizRequirements st (user_id (user en)) (dto_lessonId dto) = Inl err"
          by (cases "checkQuizRequirements st (user_id (user en)) (dto_lessonId dto)") auto
        from updateProgress_unmet [OF \<open>find _ (enrollmentRepo st) = Some en\<close> le s c] f
        have "e = err" by simp
        moreover from c obtain q where
          "find (\<lambda>q. notPassed (findAttempt (quizAttemptRepo st) (user_id (user en)) (quiz_id q)))
             (filter (\<lambda>q. quiz_lesson_id q = dto_lessonId dto) (quizRepo st)) = Some q"
          and "err = QuizRequirementUnmet (quiz_title q)"
          by (auto simp: checkQuizRequirements_find split: option.splits)
        moreover then have "q \<in> set (quizRepo st)"
          by (auto simp: find_Some_iff in_set_conv_nth dest!: nth_mem)
        ultimately show ?thesis by blast
      qed
    qed
  qed
  from unchanged kind show "snd (updateProgress st dto) = st
     \<and> (e = EnrollmentNotFound \<or> e = LessonNotFound
         \<or> (\<exists>q\<in>set (quizRepo st). e = QuizRequirementUnmet (quiz_title q)))" ..
qed

text \<open>
  Quiz A passed, quiz B never attempted, one row IN_PROGRESS: completing fails and the row
  stays as it was.
\<close>

theorem updateProgress_atomic_on_failure_witness:
  "fst (updateProgress
          (exampleRepos [quizA, quizB]
             [\<lparr>attempt_user_id = ''u1'', attempt_quiz_id = ''qA'', passed = True\<rparr>]
             [exampleRow IN_PROGRESS])
          (exampleDto COMPLETED)) = Inl (QuizRequirementUnmet ''Quiz B'')
   \<and> snd (updateProgress
          (exampleRepos [quizA, quizB]
             [\<lparr>attempt_user_id = ''u1'', attempt_quiz_id = ''qA'', passed = True\<rparr>]
             [exampleRow IN_PROGRESS])
          (exampleDto COMPLETED))
       = exampleRepos [quizA, quizB]
             [\<lparr>attempt_user_id = ''u1'', attempt_quiz_id = ''qA'', passed = True\<rparr>]
             [exampleRow IN_PROGRESS]"
  using updateProgress_atomic_on_failure
    [where st = "exampleRepos [quizA, quizB]
             [\<lparr>attempt_user_id = ''u1'', attempt_quiz_id = ''qA'', passed = True\<rparr>]
             [exampleRow IN_PROGRESS]"
       and dto = "exampleDto COMPLETED"
       and e = "QuizRequirementUnmet ''Quiz B''"]
  by (simp add: example_defs gate_defs)

text \<open>
  Claim C6. When the enrollment and the lesson exist and no quiz is attached to the lesson,
  a call with status COMPLETED returns a response (for that enrollment and lesson, with
  status COMPLETED), whatever the stored attempts are.
\<close>

theorem updateProgress_no_quizzes:
  "(\<exists>e\<in>set (enrollmentRepo st). enrollment_id e = dto_enrollmentId dto)
   \<and> (\<exists>l\<in>set (lessonRepo st). lesson_id l = dto_lessonId dto)
   \<and> (\<forall>q\<in>set (quizRepo st). quiz_lesson_id q \<noteq> dto_lessonId dto)
   \<and> dto_status dto = COMPLETED
   \<longrightarrow> (\<exists>r. fst (updateProgress (st\<lparr>quizAttemptRepo := attempts\<rparr>) dto) = Inr r
            \<and> res_enrollmentId r = dto_enrollmentId dto
            \<and> res_lessonId r = dto_lessonId dto
            \<and> res_status r = COMPLETED)"
proof
  let ?st = "st\<lparr>quizAttemptRepo := attempts\<rparr>"
  let ?P = "\<lambda>p. enrollment_id (enrollment p) = dto_enrollmentId dto
                          \<and> lesson_id (lesson p) = dto_lessonId dto"
  assume h: "(\<exists>e\<in>set (enrollmentRepo st). enrollment_id e = dto_enrollmentId dto)
   \<and> (\<exists>l\<in>set (lessonRepo st). lesson_id l = dto_lessonId dto)
   \<and> (\<forall>q\<in>set (quizRepo st). quiz_lesson_id q \<noteq> dto_lessonId dto)
   \<and> dto_status dto = COMPLETED"
  from h obtain en where en: "find (\<lambda>e. enrollment_id e = dto_enrollmentId dto) (enrollmentRepo ?st) = Some en"
    and en_id: "enrollment_id en = dto_enrollmentId dto"
    using find_SomeE [of "enrollmentRepo st" "\<lambda>e. enrollment_id e = dto_enrollmentId dto"] by auto
  from h obtain le where le: "find (\<lambda>l. lesson_id l = dto_lessonId dto) (lessonRepo ?st) = Some le"
    and le_id: "lesson_id le = dto_lessonId dto"
    using find_SomeE [of "lessonRepo st" "\<lambda>l. lesson_id l = dto_lessonId dto"] by auto
  from h have "filter (\<lambda>q. quiz_lesson_id q = dto_lessonId dto) (quizRepo ?st) = []"
    by (simp add: filter_empty_conv)
  then have c: "dto_status dto = COMPLETED \<longrightarrow>
            checkQuizRequirements ?st (user_id (user en)) (dto_lessonId dto) = Inr ()"
    by (simp add: checkQuizRequirements_def)
  note up = updateProgress_checked [OF en le c]
  show "\<exists>r. fst (updateProgress ?st dto) = Inr r
            \<and> res_enrollmentId r = dto_enrollmentId dto
            \<and> res_lessonId r = dto_lessonId dto
            \<and> res_status r = COMPLETED"
  proof (cases "findIndex ?P (progressRepo ?st)")
    case None
    with up h en_id le_id show ?thesis by (simp add: responseToDto_def)
  next
    case (Some i)
    from findIndex_SomeD [OF Some] have "?P (progressRepo ?st ! i)" by blast
    with up h Some show ?thesis by (simp add: responseToDto_def)
  qed
qed

text \<open>
  The only stored quiz belongs to another lesson, and the user failed it: completing lesson
  l1 succeeds.
\<close>

theorem updateProgress_no_quizzes_witness:
  "fst (updateProgress
         ((exampleRepos [\<lparr>quiz_id = ''qZ'', quiz_title = ''Quiz Z'', quiz_lesson_id = ''l2''\<rparr>] [] [])
            \<lparr>quizAttemptRepo :=
               [\<lparr>attempt_user_id = ''u1'', attempt_quiz_id = ''qZ'', passed = False\<rparr>]\<rparr>)
         (exampleDto COMPLETED))
     = Inr \<lparr>res_enrollmentId = ''e1'', res_lessonId = ''l1'', res_status = COMPLETED,
            res_lessonTitle = ''Intro''\<rparr>"
  using updateProgress_no_quizzes
    [where st = "exampleRepos [\<lparr>quiz_id = ''qZ'', quiz_title = ''Quiz Z'', quiz_lesson_id = ''l2''\<rparr>] [] []"
       and dto = "exampleDto COMPLETED"
       and attempts = "[\<lparr>attempt_user_id = ''u1'', attempt_quiz_id = ''qZ'', passed = False\<rparr>]"]
  by (simp add: example_defs gate_defs)

text \<open>
  Claim C3. A call keeps the progress rows unique per (enrollment id, lesson id). A
  successful call with no row for the pair appends one row, for that pair and with the
  requested status; a successful call with a row for the pair overwrites the status of that
  row where it stands. No call removes a row or changes the pair of a row, and the number of
  rows of any pair \<open>k\<close> grows only in the first case, by one.
\<close>

theorem updateProgress_upsert:
  "(uniquePairs (progressRepo st)
      \<longrightarrow> uniquePairs (progressRepo (snd (updateProgress st dto))))
   \<and> (fst (updateProgress st dto) = Inr r
        \<and> (dto_enrollmentId dto, dto_lessonId dto) \<notin> progressKey ` set (progressRepo st)
      \<longrightarrow> (\<exists>new. progressRepo (snd (updateProgress st dto)) = progressRepo st @ [new]
                 \<and> progressKey new = (dto_enrollmentId dto, dto_lessonId dto)
                 \<and> status new = dto_status dto))
   \<and> (fst (updateProgress st dto) = Inr r
        \<and> (dto_enrollmentId dto, dto_lessonId dto) \<in> progressKey ` set (progressRepo st)
      \<longrightarrow> (\<exists>i<length (progressRepo st).
             progressKey (progressRepo st ! i) = (dto_enrollmentId dto, dto_lessonId dto)
             \<and> progressRepo (snd (updateProgress st dto))
                 = (progressRepo st)[i := (progressRepo st ! i)\<lparr>status := dto_status dto\<rparr>]))
   \<and> length (progressRepo st) \<le> length (progressRepo (snd (updateProgress st dto)))
   \<and> map progressKey (take (length (progressRepo st)) (progressRepo (snd (updateProgress st dto))))
       = map progressKey (progressRepo st)
   \<and> length (filter (\<lambda>p. progressKey p = k) (progressRepo (snd (updateProgress st dto))))
       = length (filter (\<lambda>p. progressKey p = k) (progressRepo st))
         + (if (\<exists>x. fst (updateProgress st dto) = Inr x)
               \<and> k = (dto_enrollmentId dto, dto_lessonId dto)
               \<and> k \<notin> progressKey ` set (progressRepo st) then 1 else 0)"
proof -
  let ?K = "(dto_enrollmentId dto, dto_lessonId dto)"
  let ?P = "\<lambda>p. enrollment_id (enrollment p) = dto_enrollmentId dto
                          \<and> lesson_id (lesson p) = dto_lessonId dto"
  let ?ps = "progressRepo st"
  have P_key: "\<And>p. ?P p = (progressKey p = ?K)"
    by (simp add: progressKey_def)
  show ?thesis
  proof (cases rule: updateProgress_cases [of st dto])
    case (fail e)
    then show ?thesis by simp
  next
    case (create en le)
    let ?new = "\<lparr>enrollment = en, lesson = le, status = dto_status dto\<rparr>"
    have key_new: "progressKey ?new = ?K"
      using find_Some_holds [OF create(1)] find_Some_holds [OF create(2)]
      by (simp add: progressKey_def)
    have absent: "?K \<notin> progressKey ` set ?ps"
      using create(4) by (auto simp: findIndex_None_iff P_key)
    have ps': "progressRepo (snd (updateProgress st dto)) = ?ps @ [?new]"
      using create(5) by simp
    have res: "\<exists>x. fst (updateProgress st dto) = Inr x"
      using create(5) by simp
    have c1: "uniquePairs ?ps \<longrightarrow> uniquePairs (progressRepo (snd (updateProgress st dto)))"
      using absent key_new by (simp add: ps' uniquePairs_def)
    have c2: "\<exists>new. progressRepo (snd (updateProgress st dto)) = ?ps @ [new]
                 \<and> progressKey new = ?K \<and> status new = dto_status dto"
      using ps' key_new by simp
    have c6: "length (filter (\<lambda>p. progressKey p = k) (progressRepo (snd (updateProgress st dto))))
       = length (filter (\<lambda>p. progressKey p = k) ?ps)
         + (if (\<exists>x. fst (updateProgress st dto) = Inr x) \<and> k = ?K
               \<and> k \<notin> progressKey ` set ?ps then 1 else 0)"
      using absent key_new res by (simp add: ps')
    show ?thesis
      using c1 c2 c6 absent by (simp add: ps')
  next
    case (update en le i)
    let ?x = "(?ps ! i)\<lparr>status := dto_status dto\<rparr>"
    from findIndex_SomeD [OF update(4)] have i: "i < length ?ps" and Pi: "?P (?ps ! i)"
      by blast+
    have key_i: "progressKey (?ps ! i) = ?K" using Pi by (simp add: P_key)
    have key_x: "progressKey ?x = progressKey (?ps ! i)" by (simp add: progressKey_def)
    have present: "?K \<in> progressKey ` set ?ps"
      using i key_i by (metis image_eqI nth_mem)
    have ps': "progressRepo (snd (updateProgress st dto)) = ?ps[i := ?x]"
      using update(5) by simp
    have keys: "map progressKey (?ps[i := ?x]) = map progressKey ?ps"
      using i key_x by (simp add: map_update list_update_same_conv)
    have c1: "uniquePairs ?ps \<longrightarrow> uniquePairs (progressRepo (snd (updateProgress st dto)))"
      by (simp add: ps' uniquePairs_def keys)
    have c3: "\<exists>i<length ?ps. progressKey (?ps ! i) = ?K
             \<and> progressRepo (snd (updateProgress st dto)) = ?ps[i := (?ps ! i)\<lparr>status := dto_status dto\<rparr>]"
      using i key_i ps' by blast
    have c5: "map progressKey (take (length ?ps) (progressRepo (snd (updateProgress st dto))))
       = map progressKey ?ps"
      using keys by (simp add: ps')
    have "filter (\<lambda>b. b = k) (map progressKey (?ps[i := ?x])) = filter (\<lambda>b. b = k) (map progressKey ?ps)"
      by (simp only: keys)
    then have "length (filter (\<lambda>p. progressKey p = k) (?ps[i := ?x]))
        = length (filter (\<lambda>p. progressKey p = k) ?ps)"
      by (metis (mono_tags, lifting) filter_map length_map comp_def filter_cong)
    then have c6: "length (filter (\<lambda>p. progressKey p = k) (progressRepo (snd (updateProgress st dto))))
       = length (filter (\<lambda>p. progressKey p = k) ?ps)
         + (if (\<exists>x. fst (updateProgress st dto) = Inr x) \<and> k = ?K
               \<and> k \<notin> progressKey ` set ?ps then 1 else 0)"
      using present by (auto simp: ps')
    show ?thesis
      using c1 c3 c5 c6 present by (simp add: ps')
  qed
qed

text \<open>
  The first update of the pair creates its row; an update of the existing row overwrites
  the status, and there is still one row.
\<close>

theorem updateProgress_upsert_witness:
  "progressRepo (snd (updateProgress (exampleRepos [] [] []) (exampleDto IN_PROGRESS)))
     = [exampleRow IN_PROGRESS]
   \<and> uniquePairs (progressRepo
        (snd (updateProgress (exampleRepos [] [] []) (exampleDto IN_PROGRESS))))
   \<and> progressRepo (snd (updateProgress (exampleRepos [] [] [exampleRow IN_PROGRESS])
        (exampleDto COMPLETED)))
     = [exampleRow COMPLETED]
   \<and> uniquePairs (progressRepo
        (snd (updateProgress (exampleRepos [] [] [exampleRow IN_PROGRESS]) (exampleDto COMPLETED))))"
  using updateProgress_upsert
    [where st = "exampleRepos [] [] []" and dto = "exampleDto IN_PROGRESS"
       and r = "responseToDto (exampleRow IN_PROGRESS)" and k = "(''e1'', ''l1'')"]
    updateProgress_upsert
    [where st = "exampleRepos [] [] [exampleRow IN_PROGRESS]" and dto = "exampleDto COMPLETED"
       and r = "responseToDto (exampleRow COMPLETED)" and k = "(''e1'', ''l1'')"]
  by (simp add: example_defs gate_defs)

text \<open>
  Claim C7. From rows that are unique per pair, a successful call followed by the same
  call: the second call returns the same response as the first (so the same status, the
  requested one) and changes nothing, and exactly one row exists for the pair afterwards.
\<close>

theorem updateProgress_idempotent:
  "uniquePairs (progressRepo st) \<and> fst (updateProgress st dto) = Inr r
   \<longrightarrow> updateProgress (snd (updateProgress st dto)) dto = (Inr r, snd (updateProgress st dto))
       \<and> res_status r = dto_status dto
       \<and> length (filter (\<lambda>p. progressKey p = (dto_enrollmentId dto, dto_lessonId dto))
            (progressRepo (snd (updateProgress (snd (updateProgress st dto)) dto)))) = 1"
proof
  let ?K = "(dto_enrollmentId dto, dto_lessonId dto)"
  let ?P = "\<lambda>p. enrollment_id (enrollment p) = dto_enrollmentId dto
                          \<and> lesson_id (lesson p) = dto_lessonId dto"
  let ?ps = "progressRepo st"
  assume h: "uniquePairs (progressRepo st) \<and> fst (updateProgress st dto) = Inr r"
  have P_key: "\<And>p. ?P p = (progressKey p = ?K)"
    by (simp add: progressKey_def)
  show "updateProgress (snd (updateProgress st dto)) dto = (Inr r, snd (updateProgress st dto))
       \<and> res_status r = dto_status dto
       \<and> length (filter (\<lambda>p. progressKey p = ?K)
            (progressRepo (snd (updateProgress (snd (updateProgress st dto)) dto)))) = 1"
  proof (cases rule: updateProgress_cases [of st dto])
    case (fail e)
    with h show ?thesis by simp
  next
    case (create en le)
    let ?new = "\<lparr>enrollment = en, lesson = le, status = dto_status dto\<rparr>"
    let ?st1 = "st\<lparr>progressRepo := ?ps @ [?new]\<rparr>"
    have r: "r = responseToDto ?new" using h create(5) by simp
    have st1: "snd (updateProgress st dto) = ?st1" using create(5) by simp
    have key_new: "progressKey ?new = ?K"
      using find_Some_holds [OF create(1)] find_Some_holds [OF create(2)]
      by (simp add: progressKey_def)
    have none: "\<forall>p\<in>set ?ps. \<not> ?P p"
      using create(4) by (simp add: findIndex_None_iff)
    have idx: "findIndex ?P (progressRepo ?st1) = Some (length ?ps)"
    proof (rule findIndex_SomeI)
      show "length ?ps < length (progressRepo ?st1)" by simp
      show "?P (progressRepo ?st1 ! length ?ps)"
        using key_new by (simp add: progressKey_def)
      show "\<forall>j<length ?ps. \<not> ?P (progressRepo ?st1 ! j)"
        using none by (simp add: nth_append)
    qed
    have en1: "find (\<lambda>e. enrollment_id e = dto_enrollmentId dto) (enrollmentRepo ?st1) = Some en"
      using create(1) by simp
    have le1: "find (\<lambda>l. lesson_id l = dto_lessonId dto) (lessonRepo ?st1) = Some le"
      using create(2) by simp
    have c1: "dto_status dto = COMPLETED \<longrightarrow>
            checkQuizRequirements ?st1 (user_id (user en)) (dto_lessonId dto) = Inr ()"
      using create(3) by (simp add: checkQuizRequirements_progressRepo)
    have second: "updateProgress ?st1 dto = (Inr r, ?st1)"
      using updateProgress_checked [OF en1 le1 c1] idx r by simp
    have "filter (\<lambda>p. progressKey p = ?K) ?ps = []"
      using none by (simp add: filter_empty_conv P_key)
    then have count: "length (filter (\<lambda>p. progressKey p = ?K) (progressRepo ?st1)) = 1"
      using key_new by simp
    have "res_status r = dto_status dto" using r by (simp add: responseToDto_def)
    with second count show ?thesis by (simp add: st1)
  next
    case (update en le i)
    let ?x = "(?ps ! i)\<lparr>status := dto_status dto\<rparr>"
    let ?st1 = "st\<lparr>progressRepo := ?ps[i := ?x]\<rparr>"
    from findIndex_SomeD [OF update(4)] have i: "i < length ?ps" and Pi: "?P (?ps ! i)"
      and before: "\<forall>j<i. \<not> ?P (?ps ! j)"
      by blast+
    have r: "r = responseToDto ?x" using h update(5) by simp
    have st1: "snd (updateProgress st dto) = ?st1" using update(5) by simp
    have idx: "findIndex ?P (progressRepo ?st1) = Some i"
    proof (rule findIndex_SomeI)
      show "i < length (progressRepo ?st1)" using i by simp
      show "?P (progressRepo ?st1 ! i)" using i Pi by simp
      show "\<forall>j<i. \<not> ?P (progressRepo ?st1 ! j)" using before by simp
    qed
    have en1: "find (\<lambda>e. enrollment_id e = dto_enrollmentId dto) (enrollmentRepo ?st1) = Some en"
      using update(1) by simp
    have le1: "find (\<lambda>l. lesson_id l = dto_lessonId dto) (lessonRepo ?st1) = Some le"
      using update(2) by simp
    have c1: "dto_status dto = COMPLETED \<longrightarrow>
            checkQuizRequirements ?st1 (user_id (user en)) (dto_lessonId dto) = Inr ()"
      using update(3) by (simp add: checkQuizRequirements_progressRepo)
    have second: "updateProgress ?st1 dto = (Inr r, ?st1)"
      using updateProgress_checked [OF en1 le1 c1] idx r i by simp
    have key_x: "progressKey ?x = ?K" using Pi by (simp add: progressKey_def)
    have keys: "map progressKey (?ps[i := ?x]) = map progressKey ?ps"
      using i key_x Pi by (simp add: map_update list_update_same_conv P_key)
    have "distinct (map progressKey (?ps[i := ?x]))"
      using h by (simp add: keys uniquePairs_def)
    then have le1: "length (filter (\<lambda>p. progressKey p = ?K) (?ps[i := ?x])) \<le> 1"
      by (rule count_key_le_1)
    have "?x \<in> set (?ps[i := ?x])" using i by (simp add: set_update_memI)
    then have "0 < length (filter (\<lambda>p. progressKey p = ?K) (?ps[i := ?x]))"
      using key_x by (rule count_key_pos)
    with le1 have "length (filter (\<lambda>p. progressKey p = ?K) (?ps[i := ?x])) = 1"
      by linarith
    then have count: "length (filter (\<lambda>p. progressKey p = ?K) (progressRepo ?st1)) = 1"
      by simp
    have "res_status r = dto_status dto" using r by (simp add: responseToDto_def)
    with second count show ?thesis by (simp add: st1)
  qed
qed

text \<open>
  Two calls with status IN_PROGRESS from an empty progress store.
\<close>

theorem updateProgress_idempotent_witness:
  "uniquePairs (progressRepo (exampleRepos [] [] []))
   \<and> fst (updateProgress (exampleRepos [] [] []) (exampleDto IN_PROGRESS))
       = Inr (responseToDto (exampleRow IN_PROGRESS))
   \<and> updateProgress (snd (updateProgress (exampleRepos [] [] []) (exampleDto IN_PROGRESS)))
        (exampleDto IN_PROGRESS)
       = (Inr (responseToDto (exampleRow IN_PROGRESS)),
          exampleRepos [] [] [exampleRow IN_PROGRESS])
   \<and> length (filter (\<lambda>p. progressKey p = (''e1'', ''l1''))
        (progressRepo (snd (updateProgress
           (snd (updateProgress (exampleRepos [] [] []) (exampleDto IN_PROGRESS)))
           (exampleDto IN_PROGRESS))))) = 1"
  using updateProgress_idempotent
    [where st = "exampleRepos [] [] []" and dto = "exampleDto IN_PROGRESS"
       and r = "responseToDto (exampleRow IN_PROGRESS)"]
  by (simp add: example_defs gate_defs)

text \<open>
  Claim C1 at a user whose first attempt at the only quiz of the lesson failed and whose
  second, later attempt passed. The quiz has an attempt of the user with \<open>passed = true\<close>,
  so by the claim, and by the description of \<open>checkQuizRequirements\<close> (it throws if a quiz
  of the lesson has not been passed by the user), completing the lesson is allowed. The
  lookup has no ordering and no condition on \<open>passed\<close>: it returns the first, failed
  attempt, and the call fails with \<open>QuizRequirementUnmet\<close>, naming the quiz the user has
  passed. Nothing is written.
\<close>

theorem updateProgress_passed_second_attempt:
  "updateProgress
     \<lparr>enrollmentRepo = [\<lparr>enrollment_id = ''e1'', user = \<lparr>user_id = ''u1''\<rparr>\<rparr>],
      lessonRepo = [\<lparr>lesson_id = ''l1'', lesson_title = ''Intro''\<rparr>],
      quizRepo = [\<lparr>quiz_id = ''q1'', quiz_title = ''Quiz A'', quiz_lesson_id = ''l1''\<rparr>],
      quizAttemptRepo =
        [\<lparr>attempt_user_id = ''u1'', attempt_quiz_id = ''q1'', passed = False\<rparr>,
         \<lparr>attempt_user_id = ''u1'', attempt_quiz_id = ''q1'', passed = True\<rparr>],
      progressRepo = []\<rparr>
     \<lparr>dto_enrollmentId = ''e1'', dto_lessonId = ''l1'', dto_status = COMPLETED\<rparr>
   = (Inl (QuizRequirementUnmet ''Quiz A''),
      \<lparr>enrollmentRepo = [\<lparr>enrollment_id = ''e1'', user = \<lparr>user_id = ''u1''\<rparr>\<rparr>],
      lessonRepo = [\<lparr>lesson_id = ''l1'', lesson_title = ''Intro''\<rparr>],
      quizRepo = [\<lparr>quiz_id = ''q1'', quiz_title = ''Quiz A'', quiz_lesson_id = ''l1''\<rparr>],
      quizAttemptRepo =
        [\<lparr>attempt_user_id = ''u1'', attempt_quiz_id = ''q1'', passed = False\<rparr>,
         \<lparr>attempt_user_id = ''u1'', attempt_quiz_id = ''q1'', passed = True\<rparr>],
      progressRepo = []\<rparr>)
   \<and> filter passed
        [\<lparr>attempt_user_id = ''u1'', attempt_quiz_id = ''q1'', passed = False\<rparr>,
         \<lparr>attempt_user_id = ''u1'', attempt_quiz_id = ''q1'', passed = True\<rparr>]
       = [\<lparr>attempt_user_id = ''u1'', attempt_quiz_id = ''q1'', passed = True\<rparr>]"
  by (simp add: updateProgress_def checkQuizRequirements_def findAttempt_def notPassed_def)

text \<open>
  What the gate computes, for every store. With the enrollment \<open>en\<close> and the lesson found,
  the call fails with \<open>QuizRequirementUnmet\<close> exactly when the status is COMPLETED and, for
  some quiz attached to the lesson, the attempt that the lookup returns for the enrollment's
  user and that quiz is missing or has \<open>passed = false\<close>. The error names the first such
  quiz in the order of the quiz store, whatever quizzes \<open>post\<close> follow it, and nothing is
  written. A status other than COMPLETED never fails here. A quiz with no passing attempt of
  the user always blocks completion; and when the attempt store holds at most one attempt
  per user and quiz, the call fails exactly when some attached quiz has no passing attempt
  of the user, which is what the gate is meant to decide.
\<close>

lemma updateProgress_quiz_gate:
  "find (\<lambda>e. enrollment_id e = dto_enrollmentId dto) (enrollmentRepo st) = Some en
   \<and> find (\<lambda>l. lesson_id l = dto_lessonId dto) (lessonRepo st) = Some le
   \<longrightarrow>
   ((\<exists>t. fst (updateProgress st dto) = Inl (QuizRequirementUnmet t)) =
      (dto_status dto = COMPLETED \<and>
       (\<exists>q\<in>set (quizRepo st). quiz_lesson_id q = dto_lessonId dto \<and>
          notPassed (findAttempt (quizAttemptRepo st) (user_id (user en)) (quiz_id q)))))
   \<and> (dto_status dto = COMPLETED
       \<and> filter (\<lambda>q. quiz_lesson_id q = dto_lessonId dto) (quizRepo st) = pre @ q # post
       \<and> (\<forall>p\<in>set pre. \<not> notPassed (findAttempt (quizAttemptRepo st) (user_id (user en)) (quiz_id p)))
       \<and> notPassed (findAttempt (quizAttemptRepo st) (user_id (user en)) (quiz_id q))
      \<longrightarrow> updateProgress st dto = (Inl (QuizRequirementUnmet (quiz_title q)), st))
   \<and> (dto_status dto \<noteq> COMPLETED \<longrightarrow> (\<exists>r. fst (updateProgress st dto) = Inr r))
   \<and> (dto_status dto = COMPLETED
       \<and> (\<exists>q\<in>set (quizRepo st). quiz_lesson_id q = dto_lessonId dto \<and>
            \<not> (\<exists>a\<in>set (quizAttemptRepo st). attempt_user_id a = user_id (user en)
                   \<and> attempt_quiz_id a = quiz_id q \<and> passed a))
      \<longrightarrow> (\<exists>t. fst (updateProgress st dto) = Inl (QuizRequirementUnmet t)))
   \<and> (distinct (map (\<lambda>a. (attempt_user_id a, attempt_quiz_id a)) (quizAttemptRepo st))
      \<longrightarrow> ((\<exists>t. fst (updateProgress st dto) = Inl (QuizRequirementUnmet t)) =
            (dto_status dto = COMPLETED \<and>
             (\<exists>q\<in>set (quizRepo st). quiz_lesson_id q = dto_lessonId dto \<and>
                \<not> (\<exists>a\<in>set (quizAttemptRepo st). attempt_user_id a = user_id (user en)
                       \<and> attempt_quiz_id a = quiz_id q \<and> passed a)))))"
proof
  let ?u = "user_id (user en)"
  let ?unmet = "\<lambda>q. notPassed (findAttempt (quizAttemptRepo st) ?u (quiz_id q))"
  let ?nopass = "\<lambda>q. \<not> (\<exists>a\<in>set (quizAttemptRepo st). attempt_user_id a = ?u
                       \<and> attempt_quiz_id a = quiz_id q \<and> passed a)"
  let ?qs = "filter (\<lambda>q. quiz_lesson_id q = dto_lessonId dto) (quizRepo st)"
  let ?fails = "\<exists>t. fst (updateProgress st dto) = Inl (QuizRequirementUnmet t)"
  assume h: "find (\<lambda>e. enrollment_id e = dto_enrollmentId dto) (enrollmentRepo st) = Some en
   \<and> find (\<lambda>l. lesson_id l = dto_lessonId dto) (lessonRepo st) = Some le"
  then have en: "find (\<lambda>e. enrollment_id e = dto_enrollmentId dto) (enrollmentRepo st) = Some en"
    and le: "find (\<lambda>l. lesson_id l = dto_lessonId dto) (lessonRepo st) = Some le" by simp_all
  have chk: "checkQuizRequirements st ?u (dto_lessonId dto) =
     (case find ?unmet ?qs of None \<Rightarrow> Inr ()
      | Some q \<Rightarrow> Inl (QuizRequirementUnmet (quiz_title q)))"
    by (rule checkQuizRequirements_find)
  have other: "dto_status dto \<noteq> COMPLETED \<Longrightarrow> \<exists>r. fst (updateProgress st dto) = Inr r"
  proof -
    assume "dto_status dto \<noteq> COMPLETED"
    then have "dto_status dto = COMPLETED \<longrightarrow>
            checkQuizRequirements st ?u (dto_lessonId dto) = Inr ()" by simp
    from updateProgress_checked [OF en le this] show ?thesis
      by (simp split: option.splits)
  qed
  have met: "dto_status dto = COMPLETED \<Longrightarrow> find ?unmet ?qs = None
     \<Longrightarrow> \<exists>r. fst (updateProgress st dto) = Inr r"
  proof -
    assume "dto_status dto = COMPLETED" "find ?unmet ?qs = None"
    then have "dto_status dto = COMPLETED \<longrightarrow>
            checkQuizRequirements st ?u (dto_lessonId dto) = Inr ()" by (simp add: chk)
    from updateProgress_checked [OF en le this] show ?thesis
      by (simp split: option.splits)
  qed
  have unmet: "\<And>q. dto_status dto = COMPLETED \<Longrightarrow> find ?unmet ?qs = Some q
     \<Longrightarrow> updateProgress st dto = (Inl (QuizRequirementUnmet (quiz_title q)), st)"
  proof -
    fix q assume s: "dto_status dto = COMPLETED" and f: "find ?unmet ?qs = Some q"
    then have "checkQuizRequirements st ?u (dto_lessonId dto)
        = Inl (QuizRequirementUnmet (quiz_title q))" by (simp add: chk)
    from updateProgress_unmet [OF en le s this] show
      "updateProgress st dto = (Inl (QuizRequirementUnmet (quiz_title q)), st)" .
  qed
  have iff: "?fails = (dto_status dto = COMPLETED \<and>
       (\<exists>q\<in>set (quizRepo st). quiz_lesson_id q = dto_lessonId dto \<and> ?unmet q))"
  proof (cases "dto_status dto = COMPLETED")
    case False
    with other show ?thesis by auto
  next
    case True
    show ?thesis
    proof (cases "find ?unmet ?qs")
      case None
      then have "\<not> (\<exists>q\<in>set (quizRepo st). quiz_lesson_id q = dto_lessonId dto \<and> ?unmet q)"
        by (auto simp: find_None_iff)
      moreover from met [OF True None] have "\<not> ?fails" by auto
      ultimately show ?thesis by blast
    next
      case (Some q)
      then have "q \<in> set ?qs \<and> ?unmet q"
        by (rule find_Some_set)
      then have "\<exists>q\<in>set (quizRepo st). quiz_lesson_id q = dto_lessonId dto \<and> ?unmet q"
        by auto
      moreover from unmet [OF True Some] have ?fails by simp
      ultimately show ?thesis using True by blast
    qed
  qed
  have first: "dto_status dto = COMPLETED \<and> ?qs = pre @ q # post
       \<and> (\<forall>p\<in>set pre. \<not> ?unmet p) \<and> ?unmet q
      \<longrightarrow> updateProgress st dto = (Inl (QuizRequirementUnmet (quiz_title q)), st)"
  proof
    assume a: "dto_status dto = COMPLETED \<and> ?qs = pre @ q # post
       \<and> (\<forall>p\<in>set pre. \<not> ?unmet p) \<and> ?unmet q"
    then have "find ?unmet (pre @ q # post) = Some q"
      by (intro find_append_first) simp_all
    with a have "find ?unmet ?qs = Some q" by simp
    with a unmet show "updateProgress st dto = (Inl (QuizRequirementUnmet (quiz_title q)), st)"
      by blast
  qed
  have nopass: "dto_status dto = COMPLETED
       \<and> (\<exists>q\<in>set (quizRepo st). quiz_lesson_id q = dto_lessonId dto \<and> ?nopass q)
      \<longrightarrow> ?fails"
    using iff notPassed_no_passing [of "quizAttemptRepo st" ?u] by blast
  have uniq: "distinct (map (\<lambda>a. (attempt_user_id a, attempt_quiz_id a)) (quizAttemptRepo st))
      \<longrightarrow> (?fails = (dto_status dto = COMPLETED \<and>
             (\<exists>q\<in>set (quizRepo st). quiz_lesson_id q = dto_lessonId dto \<and> ?nopass q)))"
  proof
    assume d: "distinct (map (\<lambda>a. (attempt_user_id a, attempt_quiz_id a)) (quizAttemptRepo st))"
    have "\<And>q. ?unmet q = ?nopass q"
      using notPassed_unique [OF d, of ?u] notPassed_no_passing [of "quizAttemptRepo st" ?u]
      by blast
    then have "(\<exists>q\<in>set (quizRepo st). quiz_lesson_id q = dto_lessonId dto \<and> ?unmet q)
        = (\<exists>q\<in>set (quizRepo st). quiz_lesson_id q = dto_lessonId dto \<and> ?nopass q)"
      by blast
    with iff show "?fails = (dto_status dto = COMPLETED \<and>
             (\<exists>q\<in>set (quizRepo st). quiz_lesson_id q = dto_lessonId dto \<and> ?nopass q))"
      by (simp only:)
  qed
  from iff first other nopass uniq
  show "(?fails = (dto_status dto = COMPLETED \<and>
       (\<exists>q\<in>set (quizRepo st). quiz_lesson_id q = dto_lessonId dto \<and> ?unmet q)))
   \<and> (dto_status dto = COMPLETED \<and> ?qs = pre @ q # post
       \<and> (\<forall>p\<in>set pre. \<not> ?unmet p) \<and> ?unmet q
      \<longrightarrow> updateProgress st dto = (Inl (QuizRequirementUnmet (quiz_title q)), st))
   \<and> (dto_status dto \<noteq> COMPLETED \<longrightarrow> (\<exists>r. fst (updateProgress st dto) = Inr r))
   \<and> (dto_status dto = COMPLETED
       \<and> (\<exists>q\<in>set (quizRepo st). quiz_lesson_id q = dto_lessonId dto \<and> ?nopass q)
      \<longrightarrow> ?fails)
   \<and> (distinct (map (\<lambda>a. (attempt_user_id a, attempt_quiz_id a)) (quizAttemptRepo st))
      \<longrightarrow> (?fails = (dto_status dto = COMPLETED \<and>
             (\<exists>q\<in>set (quizRepo st). quiz_lesson_id q = dto_lessonId dto \<and> ?nopass q))))"
    by blast
qed

text \<open>
  Two quizzes on the lesson, a passing attempt at quiz A and no attempt at quiz B:
  completing fails and names quiz B; the same call with status IN_PROGRESS succeeds.
\<close>

lemma updateProgress_quiz_gate_example:
  "updateProgress
     (exampleRepos [quizA, quizB]
        [\<lparr>attempt_user_id = ''u1'', attempt_quiz_id = ''qA'', passed = True\<rparr>] [])
     (exampleDto COMPLETED)
     = (Inl (QuizRequirementUnmet ''Quiz B''),
        exampleRepos [quizA, quizB]
          [\<lparr>attempt_user_id = ''u1'', attempt_quiz_id = ''qA'', passed = True\<rparr>] [])
   \<and> fst (updateProgress
     (exampleRepos [quizA, quizB]
        [\<lparr>attempt_user_id = ''u1'', attempt_quiz_id = ''qA'', passed = True\<rparr>] [])
     (exampleDto IN_PROGRESS))
     = Inr \<lparr>res_enrollmentId = ''e1'', res_lessonId = ''l1'', res_status = IN_PROGRESS,
            res_lessonTitle = ''Intro''\<rparr>"
  using updateProgress_quiz_gate
    [where st = "exampleRepos [quizA, quizB]
        [\<lparr>attempt_user_id = ''u1'', attempt_quiz_id = ''qA'', passed = True\<rparr>] []"
       and dto = "exampleDto COMPLETED" and en = exampleEnrollment and le = exampleLesson
       and pre = "[quizA]" and q = quizB and post = "[]"]
    updateProgress_quiz_gate
    [where st = "exampleRepos [quizA, quizB]
        [\<lparr>attempt_user_id = ''u1'', attempt_quiz_id = ''qA'', passed = True\<rparr>] []"
       and dto = "exampleDto IN_PROGRESS" and en = exampleEnrollment and le = exampleLesson
       and pre = "[quizA]" and q = quizB and post = "[]"]
  by (simp add: example_defs gate_defs)

section \<open>Properties of getCompletionRate\<close>

text \<open>
  \<open>toDouble\<close> is rounding to nearest on 53-bit significands: for a positive \<open>x\<close> with
  binary exponent \<open>e\<close> the result is an integer multiple \<open>m\<close> of \<open>pow2 (e - 52)\<close> with
  \<open>2 ^ 52 \<le> m \<le> 2 ^ 53\<close>, at most half of that unit away from \<open>x\<close>.
\<close>

lemma pow2_pos: "0 < pow2 e"
  by (simp add: pow2_def)

lemma pow2_nonneg: "0 \<le> e \<Longrightarrow> pow2 e = 2 ^ nat e"
  by (simp add: pow2_def)

lemma pow2_nonpos: "e \<le> 0 \<Longrightarrow> pow2 e = 1 / 2 ^ nat (- e)"
  by (cases "e = 0") (simp_all add: pow2_def)

lemma pow2_Suc: "pow2 (e + 1) = 2 * pow2 e"
proof (cases "0 \<le> e")
  case True
  then show ?thesis by (simp add: pow2_def nat_add_distrib)
next
  case False
  then have "nat (- e) = Suc (nat (- (e + 1)))" by simp
  then show ?thesis using False
    by (simp add: pow2_nonpos)
qed

lemma floorLog2_bounds:
  assumes "0 < x"
  shows "pow2 (floorLog2 x) \<le> x \<and> x < pow2 (floorLog2 x + 1)"
proof (cases "1 \<le> x")
  case True
  let ?n = "\<lfloor>x\<rfloor>"
  have n: "0 < ?n" using True by simp
  from bitlen_bounds [OF n] have lo: "2 ^ nat (bitlen ?n - 1) \<le> ?n" and hi: "?n < 2 ^ nat (bitlen ?n)"
    by simp_all
  have b: "1 \<le> bitlen ?n" using n by (simp add: bitlen_alt_def)
  have e: "floorLog2 x = bitlen ?n - 1" using True by (simp add: floorLog2_def)
  have "(of_int (2 ^ nat (bitlen ?n - 1)) :: rat) \<le> of_int ?n"
    using lo by (rule of_int_le_iff [THEN iffD2])
  moreover have "(of_int ?n :: rat) \<le> x" by (rule of_int_floor_le)
  ultimately have "(of_int (2 ^ nat (bitlen ?n - 1)) :: rat) \<le> x" by (rule order_trans)
  then have "(2 :: rat) ^ nat (bitlen ?n - 1) \<le> x" by simp
  then have 1: "pow2 (floorLog2 x) \<le> x"
    using b by (simp add: e pow2_nonneg)
  have "?n + 1 \<le> 2 ^ nat (bitlen ?n)" using hi by simp
  then have "(of_int (?n + 1) :: rat) \<le> of_int (2 ^ nat (bitlen ?n))"
    by (rule of_int_le_iff [THEN iffD2])
  moreover have "x < of_int (?n + 1)" by linarith
  ultimately have "x < (of_int (2 ^ nat (bitlen ?n)) :: rat)" by (rule less_le_trans [rotated])
  then have "x < (2 :: rat) ^ nat (bitlen ?n)" by simp
  then have 2: "x < pow2 (floorLog2 x + 1)"
    using b by (simp add: e pow2_nonneg)
  from 1 2 show ?thesis ..
next
  case False
  let ?y = "1 / x"
  let ?m = "\<lceil>?y\<rceil> - 1"
  have y: "1 < ?y" using False assms by simp
  have m: "0 < ?m" using y by (simp add: less_ceiling_iff)
  from bitlen_bounds [OF m] have lo: "2 ^ nat (bitlen ?m - 1) \<le> ?m" and hi: "?m < 2 ^ nat (bitlen ?m)"
    by simp_all
  have b: "1 \<le> bitlen ?m" using m by (simp add: bitlen_alt_def)
  have e: "floorLog2 x = - bitlen ?m" using False by (simp add: floorLog2_def)
  have "\<lceil>?y\<rceil> \<le> 2 ^ nat (bitlen ?m)" using hi by simp
  then have "?y \<le> of_int (2 ^ nat (bitlen ?m))" by (simp only: ceiling_le_iff)
  then have "1 / x \<le> 2 ^ nat (bitlen ?m)" by simp
  then have "1 / 2 ^ nat (bitlen ?m) \<le> x"
    using assms by (simp add: field_simps)
  then have 1: "pow2 (floorLog2 x) \<le> x"
    using b by (simp add: e pow2_nonpos)
  have "2 ^ nat (bitlen ?m - 1) < \<lceil>?y\<rceil>" using lo by simp
  then have "of_int (2 ^ nat (bitlen ?m - 1)) < ?y" by (simp only: less_ceiling_iff)
  then have "2 ^ nat (bitlen ?m - 1) < 1 / x" by simp
  then have "x < 1 / 2 ^ nat (bitlen ?m - 1)"
    using assms by (simp add: field_simps)
  moreover have "pow2 (floorLog2 x + 1) = 1 / 2 ^ nat (bitlen ?m - 1)"
    using b by (simp add: e pow2_nonpos)
  ultimately have 2: "x < pow2 (floorLog2 x + 1)" by simp
  from 1 2 show ?thesis ..
qed

lemma roundHalfEven_cases:
  obtains (down) "roundHalfEven x = \<lfloor>x\<rfloor>" "x - of_int \<lfloor>x\<rfloor> \<le> 1 / 2"
  | (up) "roundHalfEven x = \<lfloor>x\<rfloor> + 1" "1 / 2 \<le> x - of_int \<lfloor>x\<rfloor>"
  unfolding roundHalfEven_def Let_def
  by (cases "x - of_int \<lfloor>x\<rfloor> < 1 / 2"; cases "1 / 2 < x - of_int \<lfloor>x\<rfloor>"; cases "even \<lfloor>x\<rfloor>")
     (simp_all add: not_less)

lemma roundHalfEven_error: "\<bar>of_int (roundHalfEven x) - x\<bar> \<le> 1 / 2"
proof -
  define f where "f = \<lfloor>x\<rfloor>"
  have f: "of_int f \<le> x" "x < of_int f + 1" unfolding f_def by linarith+
  show ?thesis
  proof (cases x rule: roundHalfEven_cases)
    case down
    with f show ?thesis unfolding f_def [symmetric] by simp
  next
    case up
    with f show ?thesis unfolding f_def [symmetric] by simp
  qed
qed

lemma roundHalfEven_ge_int: "of_int k \<le> x \<Longrightarrow> k \<le> roundHalfEven x"
proof -
  assume "of_int k \<le> x"
  then have "k \<le> \<lfloor>x\<rfloor>" by (simp add: le_floor_iff)
  then show ?thesis
    by (cases x rule: roundHalfEven_cases) simp_all
qed

lemma roundHalfEven_le_int: "x \<le> of_int k \<Longrightarrow> roundHalfEven x \<le> k"
proof -
  assume a: "x \<le> of_int k"
  define f where "f = \<lfloor>x\<rfloor>"
  have f: "of_int f \<le> x" "x < of_int f + 1" unfolding f_def by linarith+
  show ?thesis
  proof (cases x rule: roundHalfEven_cases)
    case down
    from f a have "of_int f \<le> (of_int k :: rat)" by linarith
    then have "f \<le> k" by (simp only: of_int_le_iff)
    with down show ?thesis by (simp add: f_def)
  next
    case up
    then have "of_int f < (of_int k :: rat)" using a unfolding f_def [symmetric] by linarith
    then have "f < k" by (simp only: of_int_less_iff)
    with up show ?thesis by (simp add: f_def)
  qed
qed

lemma toDouble_nearest:
  assumes "0 < x"
  shows "\<bar>toDouble x - x\<bar> \<le> pow2 (floorLog2 x - 52) / 2
         \<and> (\<exists>m. toDouble x = of_int m * pow2 (floorLog2 x - 52) \<and> 2 ^ 52 \<le> m \<and> m \<le> 2 ^ 53)"
proof -
  let ?u = "pow2 (floorLog2 x - 52)"
  let ?m = "roundHalfEven (x / ?u)"
  have u: "0 < ?u" by (rule pow2_pos)
  have td: "toDouble x = of_int ?m * ?u" using assms by (simp add: toDouble_def Let_def)
  have "\<bar>of_int ?m - x / ?u\<bar> \<le> 1 / 2" by (rule roundHalfEven_error)
  then have "\<bar>of_int ?m - x / ?u\<bar> * ?u \<le> 1 / 2 * ?u"
    using u by (simp add: mult_right_mono)
  moreover have "\<bar>of_int ?m - x / ?u\<bar> * ?u = \<bar>of_int ?m * ?u - x\<bar>"
  proof -
    have "\<bar>of_int ?m - x / ?u\<bar> * ?u = \<bar>(of_int ?m - x / ?u) * ?u\<bar>"
      using u by (simp add: abs_mult)
    also have "(of_int ?m - x / ?u) * ?u = of_int ?m * ?u - x"
      using u by (simp add: left_diff_distrib)
    finally show ?thesis .
  qed
  ultimately have err: "\<bar>toDouble x - x\<bar> \<le> ?u / 2" by (simp add: td)
  have scale: "pow2 (floorLog2 x) = 2 ^ 52 * ?u"
  proof -
    have "\<And>n e. pow2 (e + int n) = 2 ^ n * pow2 e"
    proof -
      fix n e show "pow2 (e + int n) = 2 ^ n * pow2 e"
      proof (induction n)
        case 0
        show ?case by simp
      next
        case (Suc n)
        have "e + int (Suc n) = (e + int n) + 1" by simp
        then have "pow2 (e + int (Suc n)) = pow2 ((e + int n) + 1)" by (simp only:)
        also have "\<dots> = 2 * pow2 (e + int n)" by (rule pow2_Suc)
        finally show ?case using Suc by simp
      qed
    qed
    from this [of "floorLog2 x - 52" 52] show ?thesis by simp
  qed
  have b1: "pow2 (floorLog2 x) \<le> x" and b2: "x < 2 * pow2 (floorLog2 x)"
    using floorLog2_bounds [OF assms] by (simp_all add: pow2_Suc)
  have c1: "2 ^ 52 * ?u \<le> x" using b1 by (simp only: scale)
  have c2: "x < 2 * (2 ^ 52 * ?u)" using b2 by (simp only: scale)
  have d1: "of_int (2 ^ 52) \<le> x / ?u" and d2: "x / ?u \<le> of_int (2 ^ 53)"
    using u c1 c2 by (simp_all add: pos_le_divide_eq pos_divide_le_eq)
  have "2 ^ 52 \<le> ?m" using d1 by (rule roundHalfEven_ge_int)
  moreover have "?m \<le> 2 ^ 53" using d2 by (rule roundHalfEven_le_int)
  ultimately have "2 ^ 52 \<le> ?m" "?m \<le> 2 ^ 53" .
  with err td show ?thesis by blast
qed

text \<open>With no progress row of the enrollment nothing is divided: the result is all zeros.\<close>

lemma getCompletionRate_no_rows:
  "(\<forall>p\<in>set (progressRepo st). enrollment_id (enrollment p) \<noteq> enrollmentId) \<Longrightarrow>
   getCompletionRate st enrollmentId =
     \<lparr>cr_enrollmentId = enrollmentId, cr_completed = 0, cr_total = 0, cr_completionRate = 0\<rparr>"
  by (simp add: getCompletionRate_def filter_empty_conv)

text \<open>
  Claim C8 at an enrollment with 40 progress rows, 23 of them COMPLETED. The quotient
  \<open>23 / 40\<close> is not a double; the nearest double lies below it, and its product with 100
  rounds to the double just below 57.5, so the code returns \<open>completionRate = 57\<close>, while
  \<open>100 * 23 / 40 = 57.5\<close> rounds to 58 (half up as \<open>Math.round\<close> does, and half to even
  too). With no rows the result is all zeros, 1 of 3 gives 33, and 1 of 8 (12.5, a product
  that is exact) gives 13.
\<close>

theorem getCompletionRate_23_of_40:
  "getCompletionRate
     (exampleRepos [] []
        (replicate 23 (exampleRow COMPLETED) @ replicate 17 (exampleRow IN_PROGRESS))) ''e1''
     = \<lparr>cr_enrollmentId = ''e1'', cr_completed = 23, cr_total = 40, cr_completionRate = 57\<rparr>
   \<and> Math_round (100 * 23 / 40) = 58
   \<and> roundHalfEven (100 * 23 / 40) = 58
   \<and> divideNumber 23 40 = 5179139571476070 / 2 ^ 53
   \<and> timesNumber (divideNumber 23 40) 100 = 8092405580431359 / 2 ^ 47
   \<and> getCompletionRate (exampleRepos [] [] []) ''e1''
     = \<lparr>cr_enrollmentId = ''e1'', cr_completed = 0, cr_total = 0, cr_completionRate = 0\<rparr>
   \<and> getCompletionRate
       (exampleRepos [] []
          [exampleRow COMPLETED, exampleRow IN_PROGRESS, exampleRow NOT_STARTED]) ''e1''
     = \<lparr>cr_enrollmentId = ''e1'', cr_completed = 1, cr_total = 3, cr_completionRate = 33\<rparr>
   \<and> getCompletionRate
       (exampleRepos [] [] (exampleRow COMPLETED # replicate 7 (exampleRow IN_PROGRESS))) ''e1''
     = \<lparr>cr_enrollmentId = ''e1'', cr_completed = 1, cr_total = 8, cr_completionRate = 13\<rparr>"
  by code_simp

end
